theory Spec2Isabelle
  imports Complex_Main "HOL-Library.Log_Nat"
begin

section \<open>Strings, values and numbers of the Python runtime\<close>

text \<open>
  A Python \<open>str\<close> is a sequence of Unicode code points, so a string is a list of
  natural numbers; \<open>lit\<close> turns an ASCII literal of the source into such a list.
  Three services of the runtime are not code of the repository and are parameters of the
  functions that use them: the table of Unicode decimal digits (what \<open>\d\<close> matches
  and \<open>float()\<close> reads), \<open>str.lower\<close>, and \<open>str()\<close> of a value that is not a
  string.
\<close>

type_synonym pystr = "nat list"

definition lit :: "string \<Rightarrow> pystr" where
  "lit s = map of_char s"

type_synonym decimals = "nat \<Rightarrow> nat option"

definition ascii_decimal :: decimals where
  "ascii_decimal c = (if 48 \<le> c \<and> c \<le> 57 then Some (c - 48) else None)"

definition isspace :: "nat \<Rightarrow> bool" where
  "isspace c \<longleftrightarrow>
     (9 \<le> c \<and> c \<le> 13) \<or> (28 \<le> c \<and> c \<le> 32) \<or> c = 133 \<or> c = 160 \<or> c = 5760 \<or>
     (8192 \<le> c \<and> c \<le> 8202) \<or> c = 8232 \<or> c = 8233 \<or> c = 8239 \<or> c = 8287 \<or> c = 12288"

definition strip :: "pystr \<Rightarrow> pystr" where
  "strip s = rev (dropWhile isspace (rev (dropWhile isspace s)))"

definition strip_char :: "nat \<Rightarrow> pystr \<Rightarrow> pystr" where
  "strip_char k s = rev (dropWhile (\<lambda>c. c = k) (rev (dropWhile (\<lambda>c. c = k) s)))"

definition startswith :: "pystr \<Rightarrow> pystr \<Rightarrow> bool" where
  "startswith s p \<longleftrightarrow> take (length p) s = p"


fun contains :: "pystr \<Rightarrow> pystr \<Rightarrow> bool" where
  "contains [] p = (p = [])"
| "contains (c # cs) p = (startswith (c # cs) p \<or> contains cs p)"

text \<open>A text between single quotes, as the messages of the runtime show names.\<close>

definition quoted :: "pystr \<Rightarrow> pystr" where
  "quoted s = [39] @ s @ [39]"

subsection \<open>Exceptions\<close>

text \<open>An exception is its class and its message (\<open>str(e)\<close>).\<close>

datatype exn =
    ValueError pystr
  | RuntimeError pystr
  | TypeError pystr
  | AttributeError pystr
  | OverflowError pystr
  | ZeroDivisionError pystr
  | FileNotFoundError pystr
  | OSError pystr
  | OtherError pystr

fun message :: "exn \<Rightarrow> pystr" where
  "message (ValueError m) = m"
| "message (RuntimeError m) = m"
| "message (TypeError m) = m"
| "message (AttributeError m) = m"
| "message (OverflowError m) = m"
| "message (ZeroDivisionError m) = m"
| "message (FileNotFoundError m) = m"
| "message (OSError m) = m"
| "message (OtherError m) = m"

definition and_then :: "exn + 'a \<Rightarrow> ('a \<Rightarrow> exn + 'b) \<Rightarrow> exn + 'b" where
  "and_then r f = (case r of Inl e \<Rightarrow> Inl e | Inr v \<Rightarrow> f v)"

subsection \<open>Floats\<close>

text \<open>
  A Python \<open>float\<close> is an IEEE 754 binary64 number: a finite one is given by its exact
  value, a rational number, and the two infinities and the not-a-number are values of
  their own. The sign of a zero is not kept: nothing modelled here tells \<open>-0.0\<close> from
  \<open>0.0\<close>.

  \<open>nearest_double x\<close> is the double nearest to the rational \<open>x\<close>, a tie going to the
  even significand, and an infinity when \<open>x\<close> rounds beyond the largest double. For
  \<open>x > 0\<close>, \<open>exponent x\<close> is the \<open>e\<close> with \<open>2^e \<le> x < 2^(e+1)\<close>; the doubles
  near \<open>x\<close> are the multiples of \<open>2^(e-52)\<close>, or of \<open>2^(-1074)\<close> when \<open>x\<close> is
  below the normal range. Every arithmetic operation on floats returns the nearest double
  of the exact result.
\<close>

datatype pyfloat = Fin rat | PosInf | NegInf | NaN

definition round_half_even :: "rat \<Rightarrow> int" where
  "round_half_even x =
     (let f = \<lfloor>x\<rfloor>; d = x - of_int f
      in if d < 1 / 2 then f else if 1 / 2 < d then f + 1
         else if even f then f else f + 1)"

definition pow2 :: "int \<Rightarrow> rat" where
  "pow2 e = (if 0 \<le> e then 2 ^ nat e else 1 / 2 ^ nat (- e))"

definition exponent :: "rat \<Rightarrow> int" where
  "exponent x =
     (let e = bitlen (fst (quotient_of x)) - bitlen (snd (quotient_of x))
      in if pow2 e \<le> x then e else e - 1)"

definition infinity :: "bool \<Rightarrow> pyfloat" where
  "infinity positive = (if positive then PosInf else NegInf)"

definition nearest_double :: "rat \<Rightarrow> pyfloat" where
  "nearest_double x =
     (if x = 0 then Fin 0
      else if 1024 \<le> exponent \<bar>x\<bar> then infinity (0 < x)
      else
        let e = max (exponent \<bar>x\<bar>) (- 1022);
            m = round_half_even (\<bar>x\<bar> / pow2 (e - 52))
        in if e = 1023 \<and> m = 2 ^ 53 then infinity (0 < x)
           else Fin (if 0 < x then of_int m * pow2 (e - 52) else - (of_int m * pow2 (e - 52))))"

text \<open>\<open>a < b\<close> and \<open>a == b\<close> on floats: every comparison with a not-a-number is false.\<close>

fun flt :: "pyfloat \<Rightarrow> pyfloat \<Rightarrow> bool" where
  "flt (Fin x) (Fin y) = (x < y)"
| "flt (Fin x) PosInf = True"
| "flt NegInf (Fin y) = True"
| "flt NegInf PosInf = True"
| "flt a b = False"

fun feq :: "pyfloat \<Rightarrow> pyfloat \<Rightarrow> bool" where
  "feq NaN b = False"
| "feq a NaN = False"
| "feq a b = (a = b)"

text \<open>\<open>max(a, b)\<close> keeps its first argument unless the second is greater.\<close>

definition pymax :: "pyfloat \<Rightarrow> pyfloat \<Rightarrow> pyfloat" where
  "pymax a b = (if flt a b then b else a)"

fun fabs :: "pyfloat \<Rightarrow> pyfloat" where
  "fabs (Fin x) = Fin \<bar>x\<bar>"
| "fabs PosInf = PosInf"
| "fabs NegInf = PosInf"
| "fabs NaN = NaN"

fun fneg :: "pyfloat \<Rightarrow> pyfloat" where
  "fneg (Fin x) = Fin (- x)"
| "fneg PosInf = NegInf"
| "fneg NegInf = PosInf"
| "fneg NaN = NaN"

fun fsub :: "pyfloat \<Rightarrow> pyfloat \<Rightarrow> pyfloat" where
  "fsub (Fin x) (Fin y) = nearest_double (x - y)"
| "fsub NaN b = NaN"
| "fsub a NaN = NaN"
| "fsub PosInf PosInf = NaN"
| "fsub NegInf NegInf = NaN"
| "fsub PosInf b = PosInf"
| "fsub NegInf b = NegInf"
| "fsub (Fin x) b = fneg b"

fun fmul :: "pyfloat \<Rightarrow> pyfloat \<Rightarrow> pyfloat" where
  "fmul (Fin x) (Fin y) = nearest_double (x * y)"
| "fmul NaN b = NaN"
| "fmul a NaN = NaN"
| "fmul (Fin x) b = (if x = 0 then NaN else if 0 < x then b else fneg b)"
| "fmul a (Fin y) = (if y = 0 then NaN else if 0 < y then a else fneg a)"
| "fmul PosInf b = b"
| "fmul NegInf b = fneg b"

text \<open>
  \<open>a / b\<close>: a zero divisor raises \<open>ZeroDivisionError\<close>, whatever the dividend;
  \<open>fquot\<close> is the result for any other divisor.
\<close>

fun fquot :: "pyfloat \<Rightarrow> pyfloat \<Rightarrow> pyfloat" where
  "fquot (Fin x) (Fin y) = nearest_double (x / y)"
| "fquot NaN b = NaN"
| "fquot a NaN = NaN"
| "fquot (Fin x) b = Fin 0"
| "fquot a (Fin y) = (if 0 < y then a else fneg a)"
| "fquot a b = NaN"

definition fdiv :: "pyfloat \<Rightarrow> pyfloat \<Rightarrow> exn + pyfloat" where
  "fdiv a b =
     (if b = Fin 0 then Inl (ZeroDivisionError (lit ''float division by zero''))
      else Inr (fquot a b))"

text \<open>
  \<open>round(x, 1)\<close> on a float: the exact value of \<open>x\<close> is rounded to one decimal, a
  tie going to the even digit, and the double nearest to that decimal is returned; an
  infinity and a not-a-number are returned as they are.
\<close>

fun round1 :: "pyfloat \<Rightarrow> pyfloat" where
  "round1 (Fin x) = nearest_double (of_int (round_half_even (x * 10)) / 10)"
| "round1 a = a"

text \<open>
  \<open>float(n)\<close> of an integer is the nearest double, and raises \<open>OverflowError\<close> when
  that is beyond the largest double.
\<close>

definition int_to_float :: "int \<Rightarrow> exn + pyfloat" where
  "int_to_float n =
     (case nearest_double (of_int n) of
        Fin x \<Rightarrow> Inr (Fin x)
      | _ \<Rightarrow> Inl (OverflowError (lit ''int too large to convert to float'')))"

subsection \<open>Values\<close>

text \<open>
  The values that the JSON input and the dictionaries of the pipeline hold. A dictionary
  is the list of its items, each key once.
\<close>

datatype pyval =
    PInt int
  | PBool bool
  | PFloat pyfloat
  | PStr pystr
  | PList "pyval list"
  | PDict "(pystr \<times> pyval) list"
  | PNone

fun type_name :: "pyval \<Rightarrow> pystr" where
  "type_name (PInt n) = lit ''int''"
| "type_name (PBool b) = lit ''bool''"
| "type_name (PFloat f) = lit ''float''"
| "type_name (PStr s) = lit ''str''"
| "type_name (PList l) = lit ''list''"
| "type_name (PDict d) = lit ''dict''"
| "type_name PNone = lit ''NoneType''"

fun truthy :: "pyval \<Rightarrow> bool" where
  "truthy (PInt n) = (n \<noteq> 0)"
| "truthy (PBool b) = b"
| "truthy (PFloat f) = (f \<noteq> Fin 0)"
| "truthy (PStr s) = (s \<noteq> [])"
| "truthy (PList l) = (l \<noteq> [])"
| "truthy (PDict d) = (d \<noteq> [])"
| "truthy PNone = False"

text \<open>
  \<open>float(value)\<close> for a value that passes \<open>isinstance(value, (int, float))\<close>: an
  integer, a Boolean (a subclass of \<open>int\<close>) or a float; \<open>None\<close> for any other.
\<close>

definition number_to_float :: "pyval \<Rightarrow> (exn + pyfloat) option" where
  "number_to_float v =
     (case v of
        PInt n \<Rightarrow> Some (int_to_float n)
      | PBool b \<Rightarrow> Some (Inr (Fin (if b then 1 else 0)))
      | PFloat f \<Rightarrow> Some (Inr f)
      | _ \<Rightarrow> None)"

definition is_number :: "pyval \<Rightarrow> bool" where
  "is_number v \<longleftrightarrow> number_to_float v \<noteq> None"

subsection \<open>The number pattern\<close>

text \<open>
  \<open>re.search(r'(\d+(?:\.\d+)?)', s)\<close>: the match starts at the first decimal digit of
  \<open>s\<close>, takes the whole run of digits there and, when a full stop and at least one more
  digit follow, that full stop and the whole run of digits after it. \<open>number_match\<close> is
  the text of group 1, \<open>None\<close> when nothing matches. \<open>py_float\<close> is \<open>float()\<close> on
  such a text (digits, optionally a full stop and digits): the double nearest to the
  decimal number written, an infinity when that is beyond the largest double.
\<close>

definition is_decimal :: "decimals \<Rightarrow> nat \<Rightarrow> bool" where
  "is_decimal dv c \<longleftrightarrow> dv c \<noteq> None"

definition number_match :: "decimals \<Rightarrow> pystr \<Rightarrow> pystr option" where
  "number_match dv s =
     (let s1 = dropWhile (\<lambda>c. \<not> is_decimal dv c) s in
      if s1 = [] then None
      else
        let ip = takeWhile (is_decimal dv) s1;
            r = dropWhile (is_decimal dv) s1
        in case r of
             [] \<Rightarrow> Some ip
           | c # r' \<Rightarrow>
               if c = 46 \<and> takeWhile (is_decimal dv) r' \<noteq> []
               then Some (ip @ [46] @ takeWhile (is_decimal dv) r')
               else Some ip)"

definition digit_of :: "decimals \<Rightarrow> nat \<Rightarrow> nat" where
  "digit_of dv c = (case dv c of None \<Rightarrow> 0 | Some d \<Rightarrow> d)"

definition digits_value :: "decimals \<Rightarrow> pystr \<Rightarrow> nat" where
  "digits_value dv ds = foldl (\<lambda>a c. 10 * a + digit_of dv c) 0 ds"

definition decimal_value :: "decimals \<Rightarrow> pystr \<Rightarrow> rat" where
  "decimal_value dv m =
     (let ip = takeWhile (\<lambda>c. c \<noteq> 46) m;
          fp = drop (length ip + 1) m
      in of_nat (digits_value dv ip) + of_nat (digits_value dv fp) / 10 ^ length fp)"

definition py_float :: "decimals \<Rightarrow> pystr \<Rightarrow> pyfloat" where
  "py_float dv m = nearest_double (decimal_value dv m)"

definition first_number :: "decimals \<Rightarrow> pystr \<Rightarrow> pyfloat" where
  "first_number dv s =
     (case number_match dv s of None \<Rightarrow> Fin 0 | Some m \<Rightarrow> py_float dv m)"

text \<open>
  \<open>re.sub(r'[\<dots>,\s]', '', s)\<close> with the rupee (U+20B9), dollar, euro (U+20AC) and pound
  (U+00A3) signs in the class: every such character, comma and white space is deleted.
\<close>

definition currency_class :: "nat \<Rightarrow> bool" where
  "currency_class c \<longleftrightarrow> c = 8377 \<or> c = 36 \<or> c = 8364 \<or> c = 163 \<or> c = 44 \<or> isspace c"

definition remove_currency :: "pystr \<Rightarrow> pystr" where
  "remove_currency s = filter (\<lambda>c. \<not> currency_class c) s"

section \<open>Comparison logic block (logic\_blocks/comparison.py)\<close>

text \<open>
  A product is a dictionary read with \<open>.get(key, default)\<close>; a field that is absent is
  \<open>None\<close> here and \<open>get_or\<close> supplies the default. The lists hold strings; price and
  concentration hold any value. Of the comparison that is returned, the constant type tag
  and the formatted price texts are left out, and each analysis sentence is given by the
  case that selects it.
\<close>

record product =
  p_id :: "pystr option"
  p_name :: "pystr option"
  p_concentration :: "pyval option"
  p_skin_type :: "pystr list option"
  p_ingredients :: "pystr list option"
  p_benefits :: "pystr list option"
  p_usage :: "pystr option"
  p_side_effects :: "pystr option"
  p_price :: "pyval option"

definition get_or :: "'a option \<Rightarrow> 'a \<Rightarrow> 'a" where
  "get_or field dflt = (case field of None \<Rightarrow> dflt | Some v \<Rightarrow> v)"

definition extract_price :: "decimals \<Rightarrow> pyval \<Rightarrow> exn + pyfloat" where
  "extract_price dv price_value =
     (case number_to_float price_value of
        Some r \<Rightarrow> r
      | None \<Rightarrow>
          (case price_value of
             PStr s \<Rightarrow> (case number_match dv (remove_currency s) of
                         Some m \<Rightarrow> Inr (py_float dv m)
                       | None \<Rightarrow> Inr (Fin 0))
           | _ \<Rightarrow> Inr (Fin 0)))"

datatype side = Product_a | Product_b

datatype outcome = Winner side | Tie

datatype ingredient_analysis = Share_ingredients nat | Different_profiles | Limited_overlap

datatype benefit_analysis = Similar_benefits nat | Different_benefits

datatype price_analysis = Equally_priced | A_budget_friendly | B_budget_friendly

record ingredients_side =
  is_ingredients :: "pystr list"
  is_count :: nat
  is_concentration :: pyval

record ingredients_comparison =
  ic_product_a :: ingredients_side
  ic_product_b :: ingredients_side
  ic_common :: "pystr set"
  ic_unique_to_a :: "pystr set"
  ic_unique_to_b :: "pystr set"
  ic_analysis :: ingredient_analysis

record benefits_side =
  bs_benefits :: "pystr list"
  bs_count :: nat

record benefits_comparison =
  bc_product_a :: benefits_side
  bc_product_b :: benefits_side
  bc_common :: "pystr set"
  bc_unique_to_a :: "pystr set"
  bc_unique_to_b :: "pystr set"
  bc_analysis :: benefit_analysis

record price_comparison =
  pc_price_a :: pyfloat
  pc_price_b :: pyfloat
  difference :: pyfloat
  percentage_difference :: pyfloat
  cheaper_option :: "side option"
  pc_analysis :: price_analysis

record skin_type_comparison =
  sc_product_a :: "pystr list"
  sc_product_b :: "pystr list"
  sc_common :: "pystr set"

record scores =
  product_a_score :: nat
  product_b_score :: nat
  winner :: outcome

record comparison =
  cmp_name_a :: pystr
  cmp_name_b :: pystr
  dim_ingredients :: ingredients_comparison
  dim_benefits :: benefits_comparison
  dim_price :: price_comparison
  dim_skin_type :: skin_type_comparison
  cmp_scores :: scores
  summary :: pystr

definition analyze_ingredients ::
  "pystr set \<Rightarrow> pystr set \<Rightarrow> pystr set \<Rightarrow> ingredient_analysis" where
  "analyze_ingredients common unique_a unique_b =
     (if common \<noteq> {} then Share_ingredients (card common)
      else if unique_a \<noteq> {} \<and> unique_b \<noteq> {} then Different_profiles
      else Limited_overlap)"

definition analyze_benefits ::
  "pystr set \<Rightarrow> pystr set \<Rightarrow> pystr set \<Rightarrow> benefit_analysis" where
  "analyze_benefits common unique_a unique_b =
     (if common \<noteq> {} then Similar_benefits (card common) else Different_benefits)"

definition analyze_price :: "pyfloat \<Rightarrow> pyfloat \<Rightarrow> side option \<Rightarrow> price_analysis" where
  "analyze_price price_a price_b cheaper =
     (if feq price_a price_b then Equally_priced
      else if cheaper = Some Product_a then A_budget_friendly
      else B_budget_friendly)"

definition compare_ingredients ::
  "(pystr \<Rightarrow> pystr) \<Rightarrow> product \<Rightarrow> product \<Rightarrow> ingredients_comparison" where
  "compare_ingredients lower a b =
     (let ing_a = set (map lower (get_or (p_ingredients a) []));
          ing_b = set (map lower (get_or (p_ingredients b) []));
          common = ing_a \<inter> ing_b;
          unique_a = ing_a - ing_b;
          unique_b = ing_b - ing_a
      in \<lparr>ic_product_a =
            \<lparr>is_ingredients = get_or (p_ingredients a) [],
             is_count = length (get_or (p_ingredients a) []),
             is_concentration = get_or (p_concentration a) (PStr (lit ''N/A''))\<rparr>,
          ic_product_b =
            \<lparr>is_ingredients = get_or (p_ingredients b) [],
             is_count = length (get_or (p_ingredients b) []),
             is_concentration = get_or (p_concentration b) (PStr (lit ''N/A''))\<rparr>,
          ic_common = common,
          ic_unique_to_a = unique_a,
          ic_unique_to_b = unique_b,
          ic_analysis = analyze_ingredients common unique_a unique_b\<rparr>)"

definition compare_benefits ::
  "(pystr \<Rightarrow> pystr) \<Rightarrow> product \<Rightarrow> product \<Rightarrow> benefits_comparison" where
  "compare_benefits lower a b =
     (let ben_a = set (map lower (get_or (p_benefits a) []));
          ben_b = set (map lower (get_or (p_benefits b) []));
          common = ben_a \<inter> ben_b;
          unique_a = ben_a - ben_b;
          unique_b = ben_b - ben_a
      in \<lparr>bc_product_a =
            \<lparr>bs_benefits = get_or (p_benefits a) [],
             bs_count = length (get_or (p_benefits a) [])\<rparr>,
          bc_product_b =
            \<lparr>bs_benefits = get_or (p_benefits b) [],
             bs_count = length (get_or (p_benefits b) [])\<rparr>,
          bc_common = common,
          bc_unique_to_a = unique_a,
          bc_unique_to_b = unique_b,
          bc_analysis = analyze_benefits common unique_a unique_b\<rparr>)"

text \<open>
  The two prices are extracted first, and either extraction may raise. The percentage is
  \<open>difference / max(price_a, price_b) * 100\<close> when the larger price is positive and the
  integer 0 otherwise, rounded to one decimal.
\<close>

definition compare_price ::
  "decimals \<Rightarrow> product \<Rightarrow> product \<Rightarrow> exn + price_comparison" where
  "compare_price dv a b =
     and_then (extract_price dv (get_or (p_price a) (PInt 0))) (\<lambda>price_a.
     and_then (extract_price dv (get_or (p_price b) (PInt 0))) (\<lambda>price_b.
       let diff = fabs (fsub price_a price_b) in
       and_then
         (if flt (Fin 0) (pymax price_a price_b)
          then and_then (fdiv diff (pymax price_a price_b)) (\<lambda>q. Inr (fmul q (Fin 100)))
          else Inr (Fin 0))
         (\<lambda>percentage_diff.
            let cheaper =
                  (if flt price_a price_b then Some Product_a
                   else if flt price_b price_a then Some Product_b
                   else None)
            in Inr \<lparr>pc_price_a = price_a,
                    pc_price_b = price_b,
                    difference = diff,
                    percentage_difference = round1 percentage_diff,
                    cheaper_option = cheaper,
                    pc_analysis = analyze_price price_a price_b cheaper\<rparr>)))"

definition compare_skin_types ::
  "(pystr \<Rightarrow> pystr) \<Rightarrow> product \<Rightarrow> product \<Rightarrow> skin_type_comparison" where
  "compare_skin_types lower a b =
     \<lparr>sc_product_a = get_or (p_skin_type a) [],
      sc_product_b = get_or (p_skin_type b) [],
      sc_common = set (map lower (get_or (p_skin_type a) []))
                  \<inter> set (map lower (get_or (p_skin_type b) []))\<rparr>"

definition calculate_scores ::
  "ingredients_comparison \<Rightarrow> benefits_comparison \<Rightarrow> price_comparison \<Rightarrow> scores" where
  "calculate_scores ingredients benefits price =
     (let (a1, b1) =
            (if is_count (ic_product_a ingredients) > is_count (ic_product_b ingredients)
             then (Suc 0, 0)
             else if is_count (ic_product_b ingredients) > is_count (ic_product_a ingredients)
             then (0, Suc 0)
             else (0, 0));
          (a2, b2) =
            (if bs_count (bc_product_a benefits) > bs_count (bc_product_b benefits)
             then (a1 + 1, b1)
             else if bs_count (bc_product_b benefits) > bs_count (bc_product_a benefits)
             then (a1, b1 + 1)
             else (a1, b1));
          (score_a, score_b) =
            (if cheaper_option price = Some Product_a then (a2 + 1, b2)
             else if cheaper_option price = Some Product_b then (a2, b2 + 1)
             else (a2, b2))
      in \<lparr>product_a_score = score_a,
          product_b_score = score_b,
          winner = (if score_a > score_b then Winner Product_a
                    else if score_b > score_a then Winner Product_b
                    else Tie)\<rparr>)"

definition generate_comparison_summary :: "pystr \<Rightarrow> pystr \<Rightarrow> scores \<Rightarrow> pystr" where
  "generate_comparison_summary name_a name_b sc =
     (if winner sc = Tie then
        name_a @ lit '' and '' @ name_b @
        lit '' are closely matched products. Your choice may depend on specific preferences and skin needs.''
      else if winner sc = Winner Product_a then
        name_a @ lit '' edges ahead in this comparison based on ingredients, benefits, and price factors.''
      else
        name_b @ lit '' edges ahead in this comparison based on ingredients, benefits, and price factors.'')"

definition compare_products ::
  "(pystr \<Rightarrow> pystr) \<Rightarrow> decimals \<Rightarrow> product \<Rightarrow> product \<Rightarrow> exn + comparison" where
  "compare_products lower dv a b =
     (let name_a = get_or (p_name a) (lit ''Product A'');
          name_b = get_or (p_name b) (lit ''Product B'');
          ingredients_comparison = compare_ingredients lower a b;
          benefits_comparison = compare_benefits lower a b
      in and_then (compare_price dv a b) (\<lambda>price_comparison.
           let skin_type_comparison = compare_skin_types lower a b;
               sc = calculate_scores ingredients_comparison benefits_comparison
                      price_comparison
           in Inr \<lparr>cmp_name_a = name_a,
                   cmp_name_b = name_b,
                   dim_ingredients = ingredients_comparison,
                   dim_benefits = benefits_comparison,
                   dim_price = price_comparison,
                   dim_skin_type = skin_type_comparison,
                   cmp_scores = sc,
                   summary = generate_comparison_summary name_a name_b sc\<rparr>))"

text \<open>The two products of the module's own test run, with prices 699 and 599.\<close>

definition sample_a :: product where
  "sample_a =
     \<lparr>p_id = None, p_name = Some (lit ''GlowBoost Vitamin C Serum''),
      p_concentration = None,
      p_skin_type = Some [lit ''Oily'', lit ''Combination''],
      p_ingredients = Some [lit ''Vitamin C'', lit ''Hyaluronic Acid''],
      p_benefits = Some [lit ''Brightening'', lit ''Fades dark spots''],
      p_usage = None, p_side_effects = None, p_price = Some (PInt 699)\<rparr>"

definition sample_b :: product where
  "sample_b =
     \<lparr>p_id = None, p_name = Some (lit ''RadiantGlow Serum''),
      p_concentration = None,
      p_skin_type = Some [lit ''Oily'', lit ''Acne-prone''],
      p_ingredients = Some [lit ''Niacinamide'', lit ''Hyaluronic Acid'', lit ''Zinc''],
      p_benefits = Some [lit ''Pore minimizing'', lit ''Oil control'', lit ''Brightening''],
      p_usage = None, p_side_effects = None, p_price = Some (PInt 599)\<rparr>"

definition priced :: "pyval option \<Rightarrow> product" where
  "priced v =
     \<lparr>p_id = None, p_name = None, p_concentration = None, p_skin_type = None,
      p_ingredients = None, p_benefits = None, p_usage = None, p_side_effects = None,
      p_price = v\<rparr>"

section \<open>Safety logic block (logic\_blocks/safety.py)\<close>

fun join :: "pystr \<Rightarrow> pystr list \<Rightarrow> pystr" where
  "join sep [] = []"
| "join sep [x] = x"
| "join sep (x # y # ys) = x @ sep @ join sep (y # ys)"

record side_effect_entry =
  effect :: pystr
  likelihood :: pystr

record side_effects_info =
  se_description :: pystr
  se_severity :: pystr
  se_details :: "side_effect_entry list"

record safety_block =
  sb_type :: pystr
  sb_title :: pystr
  sb_product_name :: pystr
  sb_side_effects :: side_effects_info
  warnings :: "pystr list"
  precautions :: "pystr list"
  patch_test_recommended :: bool
  consultation_advised :: bool

definition effect_keywords :: "(pystr \<times> pystr) list" where
  "effect_keywords =
     [(lit ''tingling'', lit ''Tingling sensation''),
      (lit ''redness'', lit ''Skin redness''),
      (lit ''irritation'', lit ''Skin irritation''),
      (lit ''dryness'', lit ''Dryness''),
      (lit ''peeling'', lit ''Skin peeling''),
      (lit ''sensitivity'', lit ''Increased sensitivity''),
      (lit ''burning'', lit ''Burning sensation''),
      (lit ''itching'', lit ''Itching'')]"

definition parse_side_effects :: "(pystr \<Rightarrow> pystr) \<Rightarrow> pystr \<Rightarrow> side_effect_entry list" where
  "parse_side_effects lower side_effects =
     (if side_effects = [] then []
      else
        let side_effects_lower = lower side_effects;
            effects =
              map (\<lambda>(keyword, name).
                     \<lparr>effect = name,
                      likelihood = (if contains side_effects_lower (lit ''mild'')
                                    then lit ''possible'' else lit ''common'')\<rparr>)
                  (filter (\<lambda>(keyword, name). contains side_effects_lower keyword)
                          effect_keywords)
        in if effects = [] \<and> side_effects \<noteq> []
           then [\<lparr>effect = side_effects, likelihood = lit ''as described''\<rparr>]
           else effects)"

text \<open>
  \<open>concentration > 15\<close> is defined for a number and raises \<open>TypeError\<close> for any
  other value.
\<close>

definition greater_than :: "pyval \<Rightarrow> int \<Rightarrow> exn + bool" where
  "greater_than v k =
     (case v of
        PInt n \<Rightarrow> Inr (k < n)
      | PBool b \<Rightarrow> Inr (k < (if b then 1 else 0))
      | PFloat f \<Rightarrow> Inr (flt (Fin (of_int k)) f)
      | _ \<Rightarrow>
          Inl (TypeError
                 (quoted (lit ''>'') @ lit '' not supported between instances of '' @
                  quoted (type_name v) @ lit '' and '' @ quoted (lit ''int''))))"

definition generate_warnings ::
  "(pystr \<Rightarrow> pystr) \<Rightarrow> pystr list \<Rightarrow> pyval \<Rightarrow> exn + pystr list" where
  "generate_warnings lower ingredients concentration =
     (let vitamin_c =
            (if list_ex (\<lambda>ing. contains (lower ing) (lit ''vitamin c'')) ingredients
             then (case greater_than concentration 15 of
                     Inl e \<Rightarrow> Inl e
                   | Inr high \<Rightarrow>
                       Inr ([lit ''Avoid using with other Vitamin C products to prevent irritation.''] @
                            (if high
                             then [lit ''High concentration formula - start with less frequent application.'']
                             else [])))
             else Inr [])
      in case vitamin_c of
           Inl e \<Rightarrow> Inl e
         | Inr w1 \<Rightarrow>
             let acid_ingredients =
                   [lit ''glycolic'', lit ''salicylic'', lit ''lactic'', lit ''hyaluronic''];
                 w2 = w1 @
                   (if list_ex (\<lambda>acid. contains (lower (join (lit '' '') ingredients)) acid)
                               acid_ingredients
                    then [lit ''May increase sun sensitivity - use sunscreen during the day.'']
                    else []);
                 w3 = w2 @
                   (if list_ex (\<lambda>ing. contains (lower ing) (lit ''retinol'') \<or>
                                       contains (lower ing) (lit ''retinoid'')) ingredients
                    then [lit ''Not recommended for use during pregnancy.'',
                          lit ''Avoid combining with other retinoids or exfoliating acids.'']
                    else [])
             in Inr (if w3 = [] then [lit ''Discontinue use if irritation occurs.''] else w3))"

definition generate_precautions ::
  "(pystr \<Rightarrow> pystr) \<Rightarrow> pystr \<Rightarrow> pystr \<Rightarrow> pystr list \<Rightarrow> pystr list" where
  "generate_precautions lower product_name side_effects ingredients =
     (if contains (lower side_effects) (lit ''sensitive'')
      then [lit ''Those with sensitive skin should perform a patch test first.'']
      else []) @
     [lit ''For external use only.'',
      lit ''Avoid contact with eyes.'',
      lit ''Keep out of reach of children.'',
      lit ''Store in a cool, dry place away from direct sunlight.'']"

definition assess_severity :: "(pystr \<Rightarrow> pystr) \<Rightarrow> pystr \<Rightarrow> pystr" where
  "assess_severity lower side_effects =
     (if side_effects = [] then lit ''none_reported''
      else
        let side_effects_lower = lower side_effects in
        if list_ex (contains side_effects_lower)
             [lit ''severe'', lit ''serious'', lit ''dangerous'']
        then lit ''high''
        else if list_ex (contains side_effects_lower) [lit ''moderate'', lit ''significant'']
        then lit ''moderate''
        else if list_ex (contains side_effects_lower)
                  [lit ''mild'', lit ''slight'', lit ''minor'']
        then lit ''mild''
        else lit ''low'')"

definition should_recommend_patch_test ::
  "(pystr \<Rightarrow> pystr) \<Rightarrow> pystr \<Rightarrow> pystr list \<Rightarrow> bool" where
  "should_recommend_patch_test lower side_effects ingredients =
     (if contains (lower side_effects) (lit ''sensitive'') then True
      else
        let active_ingredients =
              [lit ''vitamin c'', lit ''retinol'', lit ''glycolic'', lit ''salicylic'',
               lit ''aha'', lit ''bha'']
        in if list_ex (\<lambda>active. contains (lower (join (lit '' '') ingredients)) active)
                      active_ingredients
           then True
           else True)"

definition should_consult_dermatologist ::
  "(pystr \<Rightarrow> pystr) \<Rightarrow> pystr \<Rightarrow> pystr list \<Rightarrow> bool" where
  "should_consult_dermatologist lower side_effects ingredients =
     (let concerning_terms =
            [lit ''severe'', lit ''allergic'', lit ''reaction'', lit ''medical'', lit ''condition'']
      in list_ex (\<lambda>term. contains (lower side_effects) term) concerning_terms)"

definition generate_safety :: "(pystr \<Rightarrow> pystr) \<Rightarrow> product \<Rightarrow> exn + safety_block" where
  "generate_safety lower p =
     (let side_effects = get_or (p_side_effects p) [];
          product_name = get_or (p_name p) (lit ''This product'');
          ingredients = get_or (p_ingredients p) [];
          concentration = get_or (p_concentration p) (PInt 0);
          parsed_effects = parse_side_effects lower side_effects
      in case generate_warnings lower ingredients concentration of
           Inl e \<Rightarrow> Inl e
         | Inr ws \<Rightarrow>
             let precs = generate_precautions lower product_name side_effects ingredients;
                 patch_test = should_recommend_patch_test lower side_effects ingredients
             in Inr \<lparr>sb_type = lit ''safety'',
                     sb_title = lit ''Safety Information'',
                     sb_product_name = product_name,
                     sb_side_effects =
                       \<lparr>se_description = side_effects,
                        se_severity = assess_severity lower side_effects,
                        se_details = parsed_effects\<rparr>,
                     warnings = ws,
                     precautions = precs,
                     patch_test_recommended = patch_test,
                     consultation_advised =
                       should_consult_dermatologist lower side_effects ingredients\<rparr>)"

text \<open>
  Lower-casing of the letters A to Z, the part of \<open>str.lower\<close> that ASCII text needs;
  it stands for the runtime's function in the evaluations below.
\<close>

definition ascii_lower :: "pystr \<Rightarrow> pystr" where
  "ascii_lower s = map (\<lambda>c. if 65 \<le> c \<and> c \<le> 90 then c + 32 else c) s"

definition numeric_concentration :: "product \<Rightarrow> bool" where
  "numeric_concentration p =
     (case p_concentration p of
        None \<Rightarrow> True
      | Some (PInt n) \<Rightarrow> True
      | Some (PBool b) \<Rightarrow> True
      | Some (PFloat f) \<Rightarrow> True
      | Some _ \<Rightarrow> False)"

definition safety_sample :: product where
  "safety_sample =
     \<lparr>p_id = None, p_name = Some (lit ''GlowBoost Vitamin C Serum''),
      p_concentration = Some (PFloat (Fin 10)),
      p_skin_type = None,
      p_ingredients = Some [lit ''Vitamin C'', lit ''Hyaluronic Acid''],
      p_benefits = None, p_usage = None,
      p_side_effects = Some (lit ''Mild tingling for sensitive skin''),
      p_price = None\<rparr>"

section \<open>Product parser (agents/product\_parser.py)\<close>

text \<open>
  The raw input is the dictionary read from the input file; an absent key is \<open>None\<close>.
\<close>

record raw_product =
  r_product_name :: "pyval option"
  r_concentration :: "pyval option"
  r_skin_type :: "pyval option"
  r_key_ingredients :: "pyval option"
  r_benefits :: "pyval option"
  r_how_to_use :: "pyval option"
  r_side_effects :: "pyval option"
  r_price :: "pyval option"

text \<open>
  \<open>PRODUCT_INPUT_SCHEMA\<close> of config.py: the eight keys are required, five of them hold
  a string and three an array of strings.
\<close>

definition is_string :: "pyval option \<Rightarrow> bool" where
  "is_string v = (case v of Some (PStr s) \<Rightarrow> True | _ \<Rightarrow> False)"

definition is_string_array :: "pyval option \<Rightarrow> bool" where
  "is_string_array v =
     (case v of Some (PList items) \<Rightarrow> list_all (\<lambda>i. is_string (Some i)) items | _ \<Rightarrow> False)"

definition valid_input :: "raw_product \<Rightarrow> bool" where
  "valid_input raw \<longleftrightarrow>
     is_string (r_product_name raw) \<and> is_string (r_concentration raw) \<and>
     is_string_array (r_skin_type raw) \<and> is_string_array (r_key_ingredients raw) \<and>
     is_string_array (r_benefits raw) \<and> is_string (r_how_to_use raw) \<and>
     is_string (r_side_effects raw) \<and> is_string (r_price raw)"

text \<open>
  A string method called on a value that is not a string raises \<open>AttributeError\<close>.
\<close>

definition str_method :: "pystr \<Rightarrow> pyval \<Rightarrow> exn + pystr" where
  "str_method name v =
     (case v of
        PStr s \<Rightarrow> Inr s
      | _ \<Rightarrow>
          Inl (AttributeError
                 (quoted (type_name v) @ lit '' object has no attribute '' @ quoted name)))"

text \<open>
  \<open>re.sub(r'[^a-z0-9]+', '-', s)\<close>: every maximal run of characters other than
  \<open>a\<close> to \<open>z\<close> and \<open>0\<close> to \<open>9\<close> becomes one hyphen. The flag says that the
  character before was already part of such a run.
\<close>

definition slug_char :: "nat \<Rightarrow> bool" where
  "slug_char c \<longleftrightarrow> (97 \<le> c \<and> c \<le> 122) \<or> (48 \<le> c \<and> c \<le> 57)"

fun hyphenate :: "bool \<Rightarrow> pystr \<Rightarrow> pystr" where
  "hyphenate in_run [] = []"
| "hyphenate in_run (c # cs) =
     (if slug_char c then c # hyphenate False cs
      else if in_run then hyphenate True cs
      else 45 # hyphenate True cs)"

text \<open>
  \<open>uuid\<close> is the text of the random UUID that \<open>uuid.uuid4()\<close> draws in this call.
\<close>

definition generate_id :: "(pystr \<Rightarrow> pystr) \<Rightarrow> pystr \<Rightarrow> pyval \<Rightarrow> exn + pystr" where
  "generate_id lower uuid name =
     and_then (str_method (lit ''lower'') name) (\<lambda>n.
       let slug = strip_char 45 (hyphenate False (lower n));
           short_uuid = take 8 uuid
       in Inr (slug @ [45] @ short_uuid))"

text \<open>
  Both extractions return \<open>float(value)\<close> for a number, and otherwise the first number
  of \<open>str(value)\<close>, or 0.0 when there is none; only the price deletes characters from
  the text first.
\<close>

definition text_of :: "(pyval \<Rightarrow> pystr) \<Rightarrow> pyval \<Rightarrow> pystr" where
  "text_of to_str v = (case v of PStr s \<Rightarrow> s | _ \<Rightarrow> to_str v)"

definition parser_extract_concentration ::
  "decimals \<Rightarrow> (pyval \<Rightarrow> pystr) \<Rightarrow> pyval \<Rightarrow> exn + pyfloat" where
  "parser_extract_concentration dv to_str v =
     (case number_to_float v of
        Some r \<Rightarrow> r
      | None \<Rightarrow> Inr (first_number dv (text_of to_str v)))"

definition parser_extract_price ::
  "decimals \<Rightarrow> (pyval \<Rightarrow> pystr) \<Rightarrow> pyval \<Rightarrow> exn + pyfloat" where
  "parser_extract_price dv to_str v =
     (case number_to_float v of
        Some r \<Rightarrow> r
      | None \<Rightarrow> Inr (first_number dv (remove_currency (text_of to_str v))))"

fun split_on :: "nat \<Rightarrow> pystr \<Rightarrow> pystr list" where
  "split_on k [] = [[]]"
| "split_on k (c # cs) =
     (if c = k then [] # split_on k cs
      else (case split_on k cs of
              [] \<Rightarrow> [[c]]
            | x # xs \<Rightarrow> (c # x) # xs))"

fun clean_items :: "(pyval \<Rightarrow> pystr) \<Rightarrow> pyval list \<Rightarrow> exn + pystr list" where
  "clean_items to_str [] = Inr []"
| "clean_items to_str (item # items) =
     (if truthy item \<and> strip (text_of to_str item) \<noteq> []
      then and_then (str_method (lit ''strip'') item) (\<lambda>s.
             and_then (clean_items to_str items) (\<lambda>rest. Inr (strip s # rest)))
      else clean_items to_str items)"

definition normalize_array :: "(pyval \<Rightarrow> pystr) \<Rightarrow> pyval \<Rightarrow> exn + pystr list" where
  "normalize_array to_str v =
     (case v of
        PList items \<Rightarrow> clean_items to_str items
      | PStr s \<Rightarrow> Inr (map strip (filter (\<lambda>item. strip item \<noteq> []) (split_on 44 s)))
      | _ \<Rightarrow> Inr [])"

definition normalize ::
  "(pystr \<Rightarrow> pystr) \<Rightarrow> decimals \<Rightarrow> (pyval \<Rightarrow> pystr) \<Rightarrow> pystr \<Rightarrow> raw_product
     \<Rightarrow> exn + product" where
  "normalize lower dv to_str uuid raw =
     and_then (generate_id lower uuid (get_or (r_product_name raw) (PStr []))) (\<lambda>ident.
     and_then (str_method (lit ''strip'') (get_or (r_product_name raw) (PStr []))) (\<lambda>name.
     and_then (parser_extract_concentration dv to_str
                 (get_or (r_concentration raw) (PStr []))) (\<lambda>conc.
     and_then (normalize_array to_str (get_or (r_skin_type raw) (PList []))) (\<lambda>skin.
     and_then (normalize_array to_str (get_or (r_key_ingredients raw) (PList []))) (\<lambda>ings.
     and_then (normalize_array to_str (get_or (r_benefits raw) (PList []))) (\<lambda>bens.
     and_then (str_method (lit ''strip'') (get_or (r_how_to_use raw) (PStr []))) (\<lambda>use.
     and_then (str_method (lit ''strip'') (get_or (r_side_effects raw) (PStr []))) (\<lambda>effects.
     and_then (parser_extract_price dv to_str (get_or (r_price raw) (PStr []))) (\<lambda>cost.
       Inr \<lparr>p_id = Some ident,
            p_name = Some (strip name),
            p_concentration = Some (PFloat conc),
            p_skin_type = Some skin,
            p_ingredients = Some ings,
            p_benefits = Some bens,
            p_usage = Some (strip use),
            p_side_effects = Some (strip effects),
            p_price = Some (PFloat cost)\<rparr>)))))))))"


text \<open>
  An input after the module's own test data (its dash written as a hyphen), and the
  texts of three random UUIDs, the first two with the same first eight characters.
\<close>

definition raw_sample :: raw_product where
  "raw_sample =
     \<lparr>r_product_name = Some (PStr (lit ''GlowBoost Vitamin C Serum'')),
      r_concentration = Some (PStr (lit ''10% Vitamin C'')),
      r_skin_type = Some (PList [PStr (lit ''Oily''), PStr (lit ''Combination'')]),
      r_key_ingredients = Some (PList [PStr (lit ''Vitamin C''), PStr (lit ''Hyaluronic Acid'')]),
      r_benefits = Some (PList [PStr (lit ''Brightening''), PStr (lit ''Fades dark spots'')]),
      r_how_to_use = Some (PStr (lit ''Apply 2-3 drops in the morning before sunscreen'')),
      r_side_effects = Some (PStr (lit ''Mild tingling for sensitive skin'')),
      r_price = Some (PStr (8377 # lit ''699''))\<rparr>"

definition uuid_one :: pystr where
  "uuid_one = lit ''3f2a9c1e-0b7d-4e21-9a5c-1d2e3f4a5b6c''"

definition uuid_two :: pystr where
  "uuid_two = lit ''3f2a9c1e-58aa-4c07-b3f1-0a1b2c3d4e5f''"

definition uuid_three :: pystr where
  "uuid_three = lit ''c0ffee00-1234-4abc-8def-0123456789ab''"

definition no_text :: "pyval \<Rightarrow> pystr" where
  "no_text v = []"

text \<open>
  Two conditions on the text that follows a run of digits: it does not begin with a
  digit; it begins with a full stop and a digit.
\<close>

definition no_digit_first :: "decimals \<Rightarrow> pystr \<Rightarrow> bool" where
  "no_digit_first dv s \<longleftrightarrow> (case s of [] \<Rightarrow> True | c # cs \<Rightarrow> dv c = None)"

definition fraction_first :: "decimals \<Rightarrow> pystr \<Rightarrow> bool" where
  "fraction_first dv s \<longleftrightarrow>
     (case s of c # d # cs \<Rightarrow> c = 46 \<and> dv d \<noteq> None | _ \<Rightarrow> False)"

section \<open>Question selection (agents/faq\_agent.py)\<close>

text \<open>
  The questions are a dictionary from a category name to its list of questions;
  \<open>min_faqs\<close> is the agent's attribute of that name, set from \<open>MIN_FAQ_ITEMS\<close>.
\<close>

record selected_question =
  question :: pystr
  category :: pystr

definition MIN_FAQ_ITEMS :: nat where
  "MIN_FAQ_ITEMS = 5"

definition category_priority :: "pystr list" where
  "category_priority =
     [lit ''informational'', lit ''usage'', lit ''safety'', lit ''purchase'', lit ''comparison'']"

fun first_pass :: "(pystr \<rightharpoonup> pystr list) \<Rightarrow> pystr list \<Rightarrow> selected_question list" where
  "first_pass questions [] = []"
| "first_pass questions (c # cs) =
     (case questions c of
        Some (q # qs) \<Rightarrow> \<lparr>question = q, category = c\<rparr> # first_pass questions cs
      | _ \<Rightarrow> first_pass questions cs)"

fun fill_from ::
  "nat \<Rightarrow> pystr \<Rightarrow> pystr list \<Rightarrow> selected_question list \<Rightarrow> selected_question list" where
  "fill_from min_faqs c [] selected = selected"
| "fill_from min_faqs c (q # qs) selected =
     (if length selected \<ge> min_faqs + 2 then selected
      else fill_from min_faqs c qs (selected @ [\<lparr>question = q, category = c\<rparr>]))"

fun second_pass ::
  "nat \<Rightarrow> (pystr \<rightharpoonup> pystr list) \<Rightarrow> pystr list \<Rightarrow> selected_question list
     \<Rightarrow> selected_question list" where
  "second_pass min_faqs questions [] selected = selected"
| "second_pass min_faqs questions (c # cs) selected =
     (if length selected \<ge> min_faqs then selected
      else (case questions c of
              None \<Rightarrow> second_pass min_faqs questions cs selected
            | Some qs \<Rightarrow>
                second_pass min_faqs questions cs (fill_from min_faqs c (drop 1 qs) selected)))"

definition select_questions ::
  "nat \<Rightarrow> (pystr \<rightharpoonup> pystr list) \<Rightarrow> selected_question list" where
  "select_questions min_faqs questions =
     second_pass min_faqs questions category_priority
       (first_pass questions category_priority)"

text \<open>
  The backfill in the words of the specification. \<open>later_questions questions c n\<close> are
  the first \<open>n\<close> questions of category \<open>c\<close> after its first one, tagged with the
  category. \<open>backfill_plan min_faqs k ls\<close> says how many later questions each category
  gives, in priority order, when \<open>k\<close> questions are selected already and \<open>ls\<close> are
  the numbers of later questions the categories have: nothing once the minimum count is
  reached, and otherwise as many as there are, up to the minimum count plus two in all.
\<close>

definition later_questions ::
  "(pystr \<rightharpoonup> pystr list) \<Rightarrow> pystr \<Rightarrow> nat \<Rightarrow> selected_question list" where
  "later_questions questions c n =
     map (\<lambda>q. \<lparr>question = q, category = c\<rparr>) (take n (drop 1 (get_or (questions c) [])))"

fun backfill_plan :: "nat \<Rightarrow> nat \<Rightarrow> nat list \<Rightarrow> nat list" where
  "backfill_plan min_faqs k [] = []"
| "backfill_plan min_faqs k (l # ls) =
     (if min_faqs \<le> k then 0 # backfill_plan min_faqs k ls
      else min l (min_faqs + 2 - k) # backfill_plan min_faqs (k + min l (min_faqs + 2 - k)) ls)"

definition later_counts :: "(pystr \<rightharpoonup> pystr list) \<Rightarrow> pystr list \<Rightarrow> nat list" where
  "later_counts questions cs = map (\<lambda>c. length (drop 1 (get_or (questions c) []))) cs"

definition backfill ::
  "nat \<Rightarrow> (pystr \<rightharpoonup> pystr list) \<Rightarrow> pystr list \<Rightarrow> nat \<Rightarrow> selected_question list" where
  "backfill min_faqs questions cs k =
     concat (map (\<lambda>(c, n). later_questions questions c n)
                 (zip cs (backfill_plan min_faqs k (later_counts questions cs))))"

definition sample_questions :: "pystr \<rightharpoonup> pystr list" where
  "sample_questions =
     [lit ''informational'' \<mapsto>
        [lit ''What is GlowBoost Vitamin C Serum?'', lit ''What ingredients are in it?''],
      lit ''usage'' \<mapsto> [lit ''How do I apply the serum?'', lit ''When should I use it?''],
      lit ''safety'' \<mapsto>
        [lit ''Are there any side effects?'', lit ''Is it safe for sensitive skin?''],
      lit ''purchase'' \<mapsto> [lit ''How much does it cost?''],
      lit ''comparison'' \<mapsto> [lit ''How does it compare to other serums?'']]"

definition three_each :: "pystr \<rightharpoonup> pystr list" where
  "three_each =
     [lit ''informational'' \<mapsto> [lit ''i1'', lit ''i2'', lit ''i3''],
      lit ''usage'' \<mapsto> [lit ''u1'', lit ''u2'', lit ''u3''],
      lit ''safety'' \<mapsto> [lit ''s1'', lit ''s2'', lit ''s3''],
      lit ''purchase'' \<mapsto> [lit ''p1'', lit ''p2'', lit ''p3''],
      lit ''comparison'' \<mapsto> [lit ''c1'', lit ''c2'', lit ''c3'']]"

definition five_informational :: "pystr \<rightharpoonup> pystr list" where
  "five_informational =
     [lit ''informational'' \<mapsto> [lit ''i1'', lit ''i2'', lit ''i3'', lit ''i4'', lit ''i5''],
      lit ''usage'' \<mapsto> [lit ''u1''],
      lit ''safety'' \<mapsto> [lit ''s1''],
      lit ''purchase'' \<mapsto> [lit ''p1''],
      lit ''comparison'' \<mapsto> [lit ''c1'']]"

section \<open>Response parsing (agents/question\_generator.py, agents/faq\_agent.py)\<close>

text \<open>
  A decoded JSON value; an object is the list of its keys and values, each key once.
  \<open>json.loads\<close> is not code of the repository: it is the parameter \<open>loads\<close>, which
  gives the decoded value or the message of the \<open>JSONDecodeError\<close> it raises.
\<close>

datatype json =
    JNull
  | JBool bool
  | JInt int
  | JFloat pyfloat
  | JStr pystr
  | JArr "json list"
  | JObj "(pystr \<times> json) list"





fun json_type_name :: "json \<Rightarrow> pystr" where
  "json_type_name JNull = lit ''NoneType''"
| "json_type_name (JBool b) = lit ''bool''"
| "json_type_name (JInt n) = lit ''int''"
| "json_type_name (JFloat f) = lit ''float''"
| "json_type_name (JStr s) = lit ''str''"
| "json_type_name (JArr l) = lit ''list''"
| "json_type_name (JObj kvs) = lit ''dict''"

definition json_get :: "json \<Rightarrow> pystr \<Rightarrow> json \<Rightarrow> exn + json" where
  "json_get data key dflt =
     (case data of
        JObj kvs \<Rightarrow> Inr (case map_of kvs key of None \<Rightarrow> dflt | Some v \<Rightarrow> v)
      | _ \<Rightarrow>
          Inl (AttributeError
                 (quoted (json_type_name data) @ lit '' object has no attribute '' @
                  quoted (lit ''get''))))"









section \<open>Orchestrator (orchestrator.py)\<close>

text \<open>
  The seven agents call the language model and the file system, so their entry points
  are parameters of a run, as are \<open>mkdir\<close>, the opening of one output file, the
  dumping of a document into it, and the time the run takes. Each gives a value or the
  exception it raises.
\<close>

record environment =
  parser_parse :: "pystr \<Rightarrow> exn + product"
  question_generate :: "product option \<Rightarrow> exn + (pystr \<times> json) list"
  content_get_all_blocks :: "product option \<Rightarrow> exn + json"
  template_list_templates :: "exn + pystr list"
  faq_generate :: "product option \<Rightarrow> (pystr \<times> json) list option \<Rightarrow> exn + json"
  product_page_generate :: "product option \<Rightarrow> exn + json"
  comparison_generate :: "product option \<Rightarrow> exn + json"
  output_dir :: pystr
  mkdir :: "exn option"
  open_file :: "pystr \<Rightarrow> exn option"
  dump :: "pystr \<Rightarrow> json option \<Rightarrow> exn option"
  elapsed :: rat

record pipeline_state =
  st_raw_product :: "json option"
  st_parsed_product :: "product option"
  st_questions :: "(pystr \<times> json) list option"
  st_content_blocks :: "json option"
  st_faq_page :: "json option"
  st_product_page :: "json option"
  st_comparison_page :: "json option"

text \<open>
  What a run prints, one entry for each call of a print helper, with the values the
  printed text is formatted from.
\<close>

datatype success_message =
    Product_parsed pystr
  | Questions_generated nat nat
  | Logic_blocks_ready
  | Templates_loaded "pystr list"
  | FAQ_generated nat
  | Product_page_generated
  | Comparison_generated json

datatype line =
    Header_line
  | Stage_line nat pystr pystr
  | Success_line success_message
  | Error_line pystr
  | Summary_line "pystr list" rat

text \<open>
  The state of a run: the pipeline state of the orchestrator, the console, the files
  written so far and, kept by the model only, the numbers of the stages whose function
  \<open>_execute_stage\<close> has called. A file that was opened for writing exists from then
  on; it holds the whole document once the dump has returned, and an unknown part of it
  when the dump raised.
\<close>

datatype file_content = Whole "json option" | Part

record run_state =
  pipeline :: pipeline_state
  console :: "line list"
  written :: "(pystr \<times> file_content) list"
  executed :: "nat list"

datatype run_result = Success "pystr list" rat | Failure pystr

type_synonym stage = "run_state \<Rightarrow> exn option \<times> run_state"

definition OUTPUT_FILES :: "pystr list" where
  "OUTPUT_FILES = [lit ''faq.json'', lit ''product_page.json'', lit ''comparison_page.json'']"

definition initial_run_state :: run_state where
  "initial_run_state =
     \<lparr>pipeline =
        \<lparr>st_raw_product = None, st_parsed_product = None, st_questions = None,
         st_content_blocks = None, st_faq_page = None, st_product_page = None,
         st_comparison_page = None\<rparr>,
      console = [], written = [], executed = []\<rparr>"

definition print_header :: "bool \<Rightarrow> run_state \<Rightarrow> run_state" where
  "print_header verbose w = (if \<not> verbose then w else w\<lparr>console := console w @ [Header_line]\<rparr>)"

definition print_stage :: "bool \<Rightarrow> nat \<Rightarrow> pystr \<Rightarrow> pystr \<Rightarrow> run_state \<Rightarrow> run_state" where
  "print_stage verbose num agent desc w =
     (if \<not> verbose then w else w\<lparr>console := console w @ [Stage_line num agent desc]\<rparr>)"

definition print_success :: "bool \<Rightarrow> success_message \<Rightarrow> run_state \<Rightarrow> run_state" where
  "print_success verbose msg w =
     (if \<not> verbose then w else w\<lparr>console := console w @ [Success_line msg]\<rparr>)"

definition print_error :: "pystr \<Rightarrow> run_state \<Rightarrow> run_state" where
  "print_error msg w = w\<lparr>console := console w @ [Error_line msg]\<rparr>"

definition print_summary :: "bool \<Rightarrow> pystr list \<Rightarrow> rat \<Rightarrow> run_state \<Rightarrow> run_state" where
  "print_summary verbose paths secs w =
     (if \<not> verbose then w else w\<lparr>console := console w @ [Summary_line paths secs]\<rparr>)"

definition execute_stage ::
  "bool \<Rightarrow> nat \<Rightarrow> pystr \<Rightarrow> pystr \<Rightarrow> stage \<Rightarrow> stage" where
  "execute_stage verbose stage_num agent_name description stage_func w =
     stage_func
       (print_stage verbose stage_num agent_name description w
          \<lparr>executed := executed w @ [stage_num]\<rparr>)"

definition json_len :: "json \<Rightarrow> exn + nat" where
  "json_len v =
     (case v of
        JArr l \<Rightarrow> Inr (length l)
      | JStr s \<Rightarrow> Inr (length s)
      | JObj kvs \<Rightarrow> Inr (length kvs)
      | _ \<Rightarrow>
          Inl (TypeError
                 (lit ''object of type '' @ quoted (json_type_name v) @ lit '' has no len()'')))"

fun get_total_count :: "(pystr \<times> json) list \<Rightarrow> exn + nat" where
  "get_total_count [] = Inr 0"
| "get_total_count ((c, q) # rest) =
     and_then (json_len q) (\<lambda>n. and_then (get_total_count rest) (\<lambda>m. Inr (n + m)))"

definition stage_parse_product :: "environment \<Rightarrow> bool \<Rightarrow> pystr \<Rightarrow> stage" where
  "stage_parse_product env verbose input_path w =
     (case parser_parse env input_path of
        Inl e \<Rightarrow> (Some e, w)
      | Inr p \<Rightarrow>
          (None,
           print_success verbose (Product_parsed (get_or (p_name p) (lit ''Unknown'')))
             (w\<lparr>pipeline := (pipeline w)\<lparr>st_parsed_product := Some p\<rparr>\<rparr>)))"

definition stage_generate_questions :: "environment \<Rightarrow> bool \<Rightarrow> stage" where
  "stage_generate_questions env verbose w =
     (case question_generate env (st_parsed_product (pipeline w)) of
        Inl e \<Rightarrow> (Some e, w)
      | Inr qs \<Rightarrow>
          let w1 = w\<lparr>pipeline := (pipeline w)\<lparr>st_questions := Some qs\<rparr>\<rparr>
          in case get_total_count qs of
               Inl e \<Rightarrow> (Some e, w1)
             | Inr total_count \<Rightarrow>
                 (None, print_success verbose (Questions_generated total_count (length qs)) w1))"

definition stage_prepare_content_blocks :: "environment \<Rightarrow> bool \<Rightarrow> stage" where
  "stage_prepare_content_blocks env verbose w =
     (case content_get_all_blocks env (st_parsed_product (pipeline w)) of
        Inl e \<Rightarrow> (Some e, w)
      | Inr blocks \<Rightarrow>
          (None,
           print_success verbose Logic_blocks_ready
             (w\<lparr>pipeline := (pipeline w)\<lparr>st_content_blocks := Some blocks\<rparr>\<rparr>)))"

definition stage_load_templates :: "environment \<Rightarrow> bool \<Rightarrow> stage" where
  "stage_load_templates env verbose w =
     (case template_list_templates env of
        Inl e \<Rightarrow> (Some e, w)
      | Inr templates \<Rightarrow> (None, print_success verbose (Templates_loaded templates) w))"

definition stage_generate_faq :: "environment \<Rightarrow> bool \<Rightarrow> stage" where
  "stage_generate_faq env verbose w =
     (case faq_generate env (st_parsed_product (pipeline w)) (st_questions (pipeline w)) of
        Inl e \<Rightarrow> (Some e, w)
      | Inr page \<Rightarrow>
          let w1 = w\<lparr>pipeline := (pipeline w)\<lparr>st_faq_page := Some page\<rparr>\<rparr>
          in case and_then (json_get page (lit ''faqs'') (JArr [])) json_len of
               Inl e \<Rightarrow> (Some e, w1)
             | Inr faq_count \<Rightarrow> (None, print_success verbose (FAQ_generated faq_count) w1))"

definition stage_generate_product_page :: "environment \<Rightarrow> bool \<Rightarrow> stage" where
  "stage_generate_product_page env verbose w =
     (case product_page_generate env (st_parsed_product (pipeline w)) of
        Inl e \<Rightarrow> (Some e, w)
      | Inr page \<Rightarrow>
          (None,
           print_success verbose Product_page_generated
             (w\<lparr>pipeline := (pipeline w)\<lparr>st_product_page := Some page\<rparr>\<rparr>)))"

definition stage_generate_comparison :: "environment \<Rightarrow> bool \<Rightarrow> stage" where
  "stage_generate_comparison env verbose w =
     (case comparison_generate env (st_parsed_product (pipeline w)) of
        Inl e \<Rightarrow> (Some e, w)
      | Inr page \<Rightarrow>
          let w1 = w\<lparr>pipeline := (pipeline w)\<lparr>st_comparison_page := Some page\<rparr>\<rparr>
          in case and_then (json_get page (lit ''product_b'') (JObj []))
                    (\<lambda>b. json_get b (lit ''name'') (JStr (lit ''Product B''))) of
               Inl e \<Rightarrow> (Some e, w1)
             | Inr product_b_name \<Rightarrow>
                 (None, print_success verbose (Comparison_generated product_b_name) w1))"

fun write_all :: "environment \<Rightarrow> (pystr \<times> json option) list \<Rightarrow> stage" where
  "write_all env [] w = (None, w)"
| "write_all env ((filename, data) # rest) w =
     (case open_file env filename of
        Some e \<Rightarrow> (Some e, w)
      | None \<Rightarrow>
          (case dump env filename data of
             Some e \<Rightarrow> (Some e, w\<lparr>written := written w @ [(filename, Part)]\<rparr>)
           | None \<Rightarrow>
               write_all env rest (w\<lparr>written := written w @ [(filename, Whole data)]\<rparr>)))"

definition write_outputs :: "environment \<Rightarrow> stage" where
  "write_outputs env w =
     (case mkdir env of
        Some e \<Rightarrow> (Some e, w)
      | None \<Rightarrow>
          write_all env
            [(OUTPUT_FILES ! 0, st_faq_page (pipeline w)),
             (OUTPUT_FILES ! 1, st_product_page (pipeline w)),
             (OUTPUT_FILES ! 2, st_comparison_page (pipeline w))] w)"

text \<open>
  The body of the \<open>try\<close> block up to the writing of the outputs: the stages run in
  order, and the first exception ends the sequence.
\<close>

fun run_stages :: "stage list \<Rightarrow> stage" where
  "run_stages [] w = (None, w)"
| "run_stages (s # ss) w =
     (case s w of
        (Some e, w') \<Rightarrow> (Some e, w')
      | (None, w') \<Rightarrow> run_stages ss w')"

definition stages :: "bool \<Rightarrow> environment \<Rightarrow> pystr \<Rightarrow> stage list" where
  "stages verbose env input_path =
     [execute_stage verbose 1 (lit ''ProductParserAgent'') (lit ''Parsing product data...'')
        (stage_parse_product env verbose input_path),
      execute_stage verbose 2 (lit ''QuestionGeneratorAgent'')
        (lit ''Generating categorized questions...'')
        (stage_generate_questions env verbose),
      execute_stage verbose 3 (lit ''ContentLogicAgent'')
        (lit ''Preparing content logic blocks...'')
        (stage_prepare_content_blocks env verbose),
      execute_stage verbose 4 (lit ''TemplateEngineAgent'') (lit ''Loading templates...'')
        (stage_load_templates env verbose),
      execute_stage verbose 5 (lit ''FAQPageAgent'') (lit ''Generating FAQ page...'')
        (stage_generate_faq env verbose),
      execute_stage verbose 6 (lit ''ProductPageAgent'') (lit ''Generating product page...'')
        (stage_generate_product_page env verbose),
      execute_stage verbose 7 (lit ''ComparisonAgent'') (lit ''Creating comparison page...'')
        (stage_generate_comparison env verbose)]"

definition output_paths :: "environment \<Rightarrow> pystr list" where
  "output_paths env = map (\<lambda>f. output_dir env @ lit ''/'' @ f) OUTPUT_FILES"

definition run :: "bool \<Rightarrow> environment \<Rightarrow> pystr \<Rightarrow> run_result \<times> run_state" where
  "run verbose env input_path =
     (case run_stages (stages verbose env input_path)
             (print_header verbose initial_run_state) of
        (Some e, w) \<Rightarrow> (Failure (message e), print_error (message e) w)
      | (None, w) \<Rightarrow>
          (case write_outputs env w of
             (Some e, w') \<Rightarrow> (Failure (message e), print_error (message e) w')
           | (None, w') \<Rightarrow>
               (Success (output_paths env) (elapsed env),
                print_summary verbose (output_paths env) (elapsed env) w')))"

fun is_error_line :: "line \<Rightarrow> bool" where
  "is_error_line (Error_line m) = True"
| "is_error_line l = False"

text \<open>
  An environment in which every stage succeeds, and four in which one agent fails with
  the error of a refused call to the language model.
\<close>

definition quota_error :: exn where
  "quota_error = RuntimeError (lit ''LLM call failed: quota exceeded'')"

definition working_env :: environment where
  "working_env =
     \<lparr>parser_parse = (\<lambda>path. Inr safety_sample),
      question_generate = (\<lambda>p. Inr [(lit ''usage'', JArr [JStr (lit ''How do I apply it?'')])]),
      content_get_all_blocks = (\<lambda>p. Inr (JObj [])),
      template_list_templates = Inr [lit ''faq'', lit ''product'', lit ''comparison''],
      faq_generate = (\<lambda>p q. Inr (JObj [(lit ''faqs'', JArr [])])),
      product_page_generate = (\<lambda>p. Inr (JObj [])),
      comparison_generate =
        (\<lambda>p. Inr (JObj [(lit ''product_b'', JObj [(lit ''name'', JStr (lit ''RadiantGlow Serum''))])])),
      output_dir = lit ''outputs'',
      mkdir = None,
      open_file = (\<lambda>f. None),
      dump = (\<lambda>f d. None),
      elapsed = 1\<rparr>"

definition failing_questions :: environment where
  "failing_questions = working_env\<lparr>question_generate := (\<lambda>p. Inl quota_error)\<rparr>"

definition failing_faq :: environment where
  "failing_faq = working_env\<lparr>faq_generate := (\<lambda>p q. Inl quota_error)\<rparr>"

definition failing_product_page :: environment where
  "failing_product_page = working_env\<lparr>product_page_generate := (\<lambda>p. Inl quota_error)\<rparr>"

definition failing_comparison :: environment where
  "failing_comparison = working_env\<lparr>comparison_generate := (\<lambda>p. Inl quota_error)\<rparr>"

definition input_json :: pystr where
  "input_json = lit ''input/product.json''"

text \<open>
  A stage that writes no file and prints no error line.
\<close>

definition keeps_files :: "stage \<Rightarrow> bool" where
  "keeps_files f \<longleftrightarrow>
     (\<forall>w. written (snd (f w)) = written w \<and>
          filter is_error_line (console (snd (f w))) = filter is_error_line (console w))"

section \<open>Properties of the floats\<close>

lemma pow2_powi: "pow2 e = 2 powi e"
  by (simp add: pow2_def power_int_def inverse_eq_divide power_one_over)

lemma pow2_pos: "0 < pow2 e"
  by (simp add: pow2_powi)

lemma pow2_add: "pow2 (a + b) = pow2 a * pow2 b"
  by (simp add: pow2_powi power_int_add)

lemma pow2_mono: "a \<le> b \<Longrightarrow> pow2 a \<le> pow2 b"
  by (simp add: pow2_powi power_int_increasing)

lemma pow2_strict_mono: "a < b \<Longrightarrow> pow2 a < pow2 b"
  by (simp add: pow2_powi power_int_strict_increasing)

lemma pow2_nat: "pow2 (int k) = 2 ^ k"
  by (simp add: pow2_def)

lemma rat_between_powers:
  fixes n d :: int
  assumes "0 < n" and "0 < d"
  shows "pow2 (bitlen n - bitlen d - 1) \<le> of_int n / of_int d \<and>
         of_int n / of_int d < pow2 (bitlen n - bitlen d + 1)"
proof -
  let ?kn = "bitlen n" and ?kd = "bitlen d"
  have kn: "1 \<le> ?kn" and kd: "1 \<le> ?kd"
    using assms by (auto simp: bitlen_alt_def)
  have bn: "2 ^ nat (?kn - 1) \<le> n \<and> n < 2 ^ nat ?kn"
    using bitlen_bounds [OF assms(1)] .
  have bd: "2 ^ nat (?kd - 1) \<le> d \<and> d < 2 ^ nat ?kd"
    using bitlen_bounds [OF assms(2)] .
  have n1: "pow2 (?kn - 1) \<le> of_int n"
  proof -
    have "(of_int (2 ^ nat (?kn - 1)) :: rat) \<le> of_int n"
      using bn by (simp only: of_int_le_iff)
    moreover have "pow2 (?kn - 1) = of_int (2 ^ nat (?kn - 1))"
      using kn by (simp add: pow2_def)
    ultimately show ?thesis by simp
  qed
  have n2: "of_int n < pow2 ?kn"
  proof -
    have "(of_int n :: rat) < of_int (2 ^ nat ?kn)"
      using bn by (simp only: of_int_less_iff)
    moreover have "pow2 ?kn = of_int (2 ^ nat ?kn)"
      using kn by (simp add: pow2_def)
    ultimately show ?thesis by simp
  qed
  have d1: "pow2 (?kd - 1) \<le> of_int d"
  proof -
    have "(of_int (2 ^ nat (?kd - 1)) :: rat) \<le> of_int d"
      using bd by (simp only: of_int_le_iff)
    moreover have "pow2 (?kd - 1) = of_int (2 ^ nat (?kd - 1))"
      using kd by (simp add: pow2_def)
    ultimately show ?thesis by simp
  qed
  have d2: "of_int d < pow2 ?kd"
  proof -
    have "(of_int d :: rat) < of_int (2 ^ nat ?kd)"
      using bd by (simp only: of_int_less_iff)
    moreover have "pow2 ?kd = of_int (2 ^ nat ?kd)"
      using kd by (simp add: pow2_def)
    ultimately show ?thesis by simp
  qed
  have dpos: "(0::rat) < of_int d" using assms(2) by simp
  have lower: "pow2 (?kn - ?kd - 1) * of_int d \<le> of_int n"
  proof -
    have "pow2 (?kn - ?kd - 1) * of_int d \<le> pow2 (?kn - ?kd - 1) * pow2 ?kd"
      using d2 pow2_pos [of "?kn - ?kd - 1"] by (simp add: less_imp_le)
    also have "\<dots> = pow2 (?kn - 1)"
      using pow2_add [of "?kn - ?kd - 1" ?kd] by simp
    finally show ?thesis using n1 by simp
  qed
  have upper: "of_int n < pow2 (?kn - ?kd + 1) * of_int d"
  proof -
    have "pow2 ?kn = pow2 (?kn - ?kd + 1) * pow2 (?kd - 1)"
      using pow2_add [of "?kn - ?kd + 1" "?kd - 1"] by simp
    also have "\<dots> \<le> pow2 (?kn - ?kd + 1) * of_int d"
      using d1 pow2_pos [of "?kn - ?kd + 1"] by simp
    finally show ?thesis using n2 by simp
  qed
  show ?thesis
    using lower upper dpos by (simp add: pos_le_divide_eq pos_divide_less_eq)
qed

lemma exponent_bounds:
  assumes "0 < x"
  shows "pow2 (exponent x) \<le> x \<and> x < pow2 (exponent x + 1)"
proof -
  obtain n d where q: "quotient_of x = (n, d)" by (cases "quotient_of x")
  have d: "0 < d" using q by (rule quotient_of_denom_pos)
  have x: "x = of_int n / of_int d" using q by (rule quotient_of_div)
  have n: "0 < n" using assms d x by (simp add: zero_less_divide_iff)
  have b: "pow2 (bitlen n - bitlen d - 1) \<le> x \<and> x < pow2 (bitlen n - bitlen d + 1)"
    using rat_between_powers [OF n d] x by simp
  show ?thesis
    using b q by (auto simp: exponent_def Let_def)
qed

lemma round_half_even_int: "round_half_even (of_int k) = k"
  by (simp add: round_half_even_def)

lemma nearest_double_small_int:
  assumes "\<bar>n\<bar> \<le> 2 ^ 53"
  shows "nearest_double (of_int n) = Fin (of_int n)"
proof (cases "n = 0")
  case True
  then show ?thesis by (simp add: nearest_double_def)
next
  case False
  define a :: rat where "a = \<bar>of_int n\<bar>"
  define e where "e = exponent a"
  have a1: "1 \<le> a" using False by (simp add: a_def flip: of_int_abs)
  have a2: "a \<le> 2 ^ 53"
  proof -
    have "(of_int \<bar>n\<bar> :: rat) \<le> of_int (2 ^ 53)" using assms by (simp only: of_int_le_iff)
    then show ?thesis by (simp add: a_def)
  qed
  have apos: "0 < a" using a1 by simp
  have eb: "pow2 e \<le> a \<and> a < pow2 (e + 1)"
    unfolding e_def using apos by (rule exponent_bounds)
  have e0: "0 \<le> e"
  proof (rule ccontr)
    assume "\<not> 0 \<le> e"
    then have "e + 1 \<le> 0" by simp
    then have "pow2 (e + 1) \<le> pow2 0" by (rule pow2_mono)
    then show False using eb a1 by (simp add: pow2_def)
  qed
  have e53: "e \<le> 53"
  proof (rule ccontr)
    assume "\<not> e \<le> 53"
    then have "54 \<le> e" by simp
    then have "pow2 54 \<le> pow2 e" by (rule pow2_mono)
    then show False using eb a2 by (simp add: pow2_def)
  qed
  have exact: "of_int (round_half_even (a / pow2 (e - 52))) * pow2 (e - 52) = a"
  proof (cases "e \<le> 52")
    case True
    have "pow2 (e - 52) * pow2 (52 - e) = 1"
      using pow2_add [of "e - 52" "52 - e"] by (simp add: pow2_def)
    then have inv: "a / pow2 (e - 52) = a * pow2 (52 - e)"
      using pow2_pos [of "e - 52"] by (simp add: field_simps)
    have "pow2 (52 - e) = of_int (2 ^ nat (52 - e))"
      using True by (simp add: pow2_def)
    then have k: "a * pow2 (52 - e) = of_int (\<bar>n\<bar> * 2 ^ nat (52 - e))"
      by (simp add: a_def)
    then have "round_half_even (a / pow2 (e - 52)) = \<bar>n\<bar> * 2 ^ nat (52 - e)"
      using inv round_half_even_int by (simp only:)
    then have "of_int (round_half_even (a / pow2 (e - 52))) = a / pow2 (e - 52)"
      using inv k by simp
    then show ?thesis using pow2_pos [of "e - 52"] by simp
  next
    case False
    then have e: "e = 53" using e53 by simp
    have "pow2 53 \<le> a" using eb e by simp
    then have a: "a = 2 ^ 53" using a2 by (simp add: pow2_def)
    have q: "pow2 (e - 52) = 2" using e by (simp add: pow2_def)
    have "a / pow2 (e - 52) = of_int (2 ^ 52)"
      using a q by simp
    then have "round_half_even (a / pow2 (e - 52)) = 2 ^ 52"
      using round_half_even_int by (simp only:)
    then show ?thesis using a q by simp
  qed
  have n0: "(of_int n :: rat) \<noteq> 0" using False by simp
  have "nearest_double (of_int n) =
          Fin (if 0 < (of_int n :: rat)
               then of_int (round_half_even (a / pow2 (e - 52))) * pow2 (e - 52)
               else - (of_int (round_half_even (a / pow2 (e - 52))) * pow2 (e - 52)))"
    unfolding nearest_double_def Let_def a_def [symmetric] e_def [symmetric]
    using n0 e0 e53 by (simp add: max_def)
  also have "\<dots> = Fin (if 0 < (of_int n :: rat) then a else - a)"
    by (simp only: exact)
  also have "\<dots> = Fin (of_int n)"
    by (simp add: a_def)
  finally show ?thesis .
qed

lemma nearest_double_huge:
  assumes "2 ^ 1024 \<le> \<bar>x\<bar>"
  shows "nearest_double x = infinity (0 < x)"
proof -
  have p: "pow2 1024 \<le> \<bar>x\<bar>" using assms by (simp add: pow2_def)
  have pos: "0 < \<bar>x\<bar>" using pow2_pos [of 1024] p by (rule less_le_trans)
  have u: "\<bar>x\<bar> < pow2 (exponent \<bar>x\<bar> + 1)"
    using exponent_bounds [OF pos] by simp
  have lt: "pow2 1024 < pow2 (exponent \<bar>x\<bar> + 1)"
    using p u by (rule le_less_trans)
  have e: "1024 \<le> exponent \<bar>x\<bar>"
  proof (rule ccontr)
    assume "\<not> 1024 \<le> exponent \<bar>x\<bar>"
    then have "exponent \<bar>x\<bar> + 1 \<le> 1024" by simp
    then have "pow2 (exponent \<bar>x\<bar> + 1) \<le> pow2 1024" by (rule pow2_mono)
    then show False using lt by simp
  qed
  have "x \<noteq> 0" using pos by simp
  then show ?thesis
    using e by (simp add: nearest_double_def)
qed

section \<open>Properties of the comparison block\<close>

lemmas number_defs =
  extract_price_def number_to_float_def number_match_def py_float_def decimal_value_def
  digits_value_def digit_of_def is_decimal_def ascii_decimal_def remove_currency_def
  currency_class_def isspace_def lit_def first_number_def get_or_def Let_def

lemma flt_zero_pymax:
  "flt (Fin 0) (pymax a b) \<Longrightarrow> pymax a b \<noteq> Fin 0"
  by (cases "pymax a b") auto

lemma double_699: "int_to_float 699 = Inr (Fin 699)"
  by code_simp

lemma double_599: "int_to_float 599 = Inr (Fin 599)"
  by code_simp

lemma sub_699_599: "fsub (Fin 699) (Fin 599) = Fin 100"
  by code_simp

lemma percent_699_599:
  "round1 (fmul (fquot (Fin 100) (Fin 699)) (Fin 100)) = nearest_double (143 / 10)"
  by code_simp

lemma double_14_3: "nearest_double (143 / 10) = Fin (4025092166962381 / 281474976710656)"
  by code_simp

lemma double_16_7: "nearest_double (167 / 10) = Fin (4700632111067955 / 281474976710656)"
  by code_simp

text \<open>
  C1, amended: for two products whose extracted prices are 699 and 599 the price dimension
  reports the difference 100 and the percentage difference 14.3 (the double nearest to
  it), names product B as the cheaper option, and the price dimension adds one point to
  the score of product B and none to the score of product A, whatever the other two
  dimensions are.
\<close>

theorem price_699_599_dimension:
  assumes "extract_price dv (get_or (p_price a) (PInt 0)) = Inr (Fin 699)"
      and "extract_price dv (get_or (p_price b) (PInt 0)) = Inr (Fin 599)"
  shows "\<exists>r. compare_price dv a b = Inr r \<and>
           difference r = Fin 100 \<and>
           percentage_difference r = nearest_double (143 / 10) \<and>
           cheaper_option r = Some Product_b \<and>
           (\<forall>ic bc.
              product_b_score (calculate_scores ic bc r) =
                product_b_score (calculate_scores ic bc (r\<lparr>cheaper_option := None\<rparr>)) + 1 \<and>
              product_a_score (calculate_scores ic bc r) =
                product_a_score (calculate_scores ic bc (r\<lparr>cheaper_option := None\<rparr>)))"
  using assms sub_699_599 percent_699_599
  by (simp add: compare_price_def and_then_def Let_def pymax_def fdiv_def
        calculate_scores_def split: prod.splits)

text \<open>
  C1, as stated, fails: for the prices 699 and 599 the reported percentage difference is
  the double 14.3 (100 of 699, the larger price), not 16.7 (which would be 100 of 599).
\<close>

theorem price_699_599_counterexample:
  "(case compare_price ascii_decimal sample_a sample_b of
      Inl e \<Rightarrow> False
    | Inr r \<Rightarrow>
        percentage_difference r = nearest_double (143 / 10) \<and>
        percentage_difference r = Fin (4025092166962381 / 281474976710656) \<and>
        percentage_difference r \<noteq> nearest_double (167 / 10))"
proof -
  have a: "extract_price ascii_decimal (get_or (p_price sample_a) (PInt 0)) = Inr (Fin 699)"
    by (simp add: sample_a_def get_or_def extract_price_def number_to_float_def double_699)
  have b: "extract_price ascii_decimal (get_or (p_price sample_b) (PInt 0)) = Inr (Fin 599)"
    by (simp add: sample_b_def get_or_def extract_price_def number_to_float_def double_599)
  show ?thesis
    using a b sub_699_599 percent_699_599 double_14_3 double_16_7
    by (simp add: compare_price_def and_then_def Let_def pymax_def fdiv_def)
qed

theorem price_699_599_dimension_witness:
  "extract_price ascii_decimal (get_or (p_price sample_a) (PInt 0)) = Inr (Fin 699) \<and>
   extract_price ascii_decimal (get_or (p_price sample_b) (PInt 0)) = Inr (Fin 599) \<and>
   (\<exists>r. compare_price ascii_decimal sample_a sample_b = Inr r \<and>
        difference r = Fin 100 \<and>
        percentage_difference r = nearest_double (143 / 10) \<and>
        cheaper_option r = Some Product_b)"
proof -
  have a: "extract_price ascii_decimal (get_or (p_price sample_a) (PInt 0)) = Inr (Fin 699)"
    by (simp add: sample_a_def get_or_def extract_price_def number_to_float_def double_699)
  have b: "extract_price ascii_decimal (get_or (p_price sample_b) (PInt 0)) = Inr (Fin 599)"
    by (simp add: sample_b_def get_or_def extract_price_def number_to_float_def double_599)
  show ?thesis
    using price_699_599_dimension [OF a b] a b by blast
qed

text \<open>
  C2: for every pair of product records whose extracted prices are finite and not
  negative, the price dimension reports the two extracted prices, their absolute
  difference and the percentage difference relative to the larger price, each operation
  in double arithmetic and the percentage rounded to one decimal; the percentage is 0
  when both prices are 0. The cheaper option is the side with the strictly lower price,
  and equal prices give no cheaper option; in the scores the dimension gives its point to
  the cheaper side and to neither side when the prices are equal.
\<close>

theorem compare_price_dimension:
  assumes "extract_price dv (get_or (p_price a) (PInt 0)) = Inr (Fin pa)"
      and "extract_price dv (get_or (p_price b) (PInt 0)) = Inr (Fin pb)"
      and "0 \<le> pa" and "0 \<le> pb"
  shows "\<exists>r. compare_price dv a b = Inr r \<and>
           pc_price_a r = Fin pa \<and> pc_price_b r = Fin pb \<and>
           difference r = fabs (fsub (Fin pa) (Fin pb)) \<and>
           percentage_difference r =
             round1 (if pa = 0 \<and> pb = 0 then Fin 0
                     else fmul (fquot (difference r) (Fin (max pa pb))) (Fin 100)) \<and>
           cheaper_option r =
             (if pa < pb then Some Product_a
              else if pb < pa then Some Product_b
              else None) \<and>
           (\<forall>ic bc.
              product_a_score (calculate_scores ic bc r) =
                product_a_score (calculate_scores ic bc (r\<lparr>cheaper_option := None\<rparr>)) +
                (if pa < pb then 1 else 0) \<and>
              product_b_score (calculate_scores ic bc r) =
                product_b_score (calculate_scores ic bc (r\<lparr>cheaper_option := None\<rparr>)) +
                (if pb < pa then 1 else 0))"
proof -
  have m: "pymax (Fin pa) (Fin pb) = Fin (max pa pb)"
    by (simp add: pymax_def max_def)
  have z: "flt (Fin 0) (Fin (max pa pb)) \<longleftrightarrow> \<not> (pa = 0 \<and> pb = 0)"
    using assms(3,4) by (auto simp: max_def)
  have nz: "\<not> (pa = 0 \<and> pb = 0) \<Longrightarrow> Fin (max pa pb) \<noteq> Fin 0"
    using assms(3,4) by (auto simp: max_def)
  show ?thesis
    using assms(1,2) z nz
    by (auto simp: compare_price_def and_then_def Let_def m fdiv_def calculate_scores_def
             split: prod.splits)
qed

lemma double_149: "int_to_float 149 = Inr (Fin 149)"
  by code_simp

lemma double_400: "int_to_float 400 = Inr (Fin 400)"
  by code_simp

lemma sub_149_400: "fabs (fsub (Fin 149) (Fin 400)) = Fin 251"
  by code_simp

lemma percent_149_400:
  "round1 (fmul (fquot (Fin 251) (Fin 400)) (Fin 100)) = nearest_double (627 / 10)"
  by code_simp

lemma double_62_7: "nearest_double (627 / 10) = Fin (4412120259939533 / 70368744177664)"
  by code_simp

lemma double_0_3: "nearest_double (3 / 10) = Fin (5404319552844595 / 18014398509481984)"
  by code_simp

lemma double_0_1: "nearest_double (1 / 10) = Fin (3602879701896397 / 36028797018963968)"
  by code_simp

lemma sub_0_3_0_1:
  "fabs (fsub (Fin (5404319552844595 / 18014398509481984))
              (Fin (3602879701896397 / 36028797018963968))) =
     Fin (7205759403792793 / 36028797018963968)"
  by code_simp

lemma percent_0_3_0_1:
  "round1 (fmul (fquot (Fin (7205759403792793 / 36028797018963968))
                       (Fin (5404319552844595 / 18014398509481984))) (Fin 100)) =
     Fin (4693595236650189 / 70368744177664)"
  by code_simp

theorem compare_price_dimension_witness:
  "extract_price ascii_decimal (get_or (p_price (priced (Some (PInt 149)))) (PInt 0)) =
     Inr (Fin 149) \<and>
   extract_price ascii_decimal (get_or (p_price (priced (Some (PInt 400)))) (PInt 0)) =
     Inr (Fin 400) \<and>
   (\<exists>r. compare_price ascii_decimal (priced (Some (PInt 149))) (priced (Some (PInt 400))) =
          Inr r \<and>
        difference r = Fin 251 \<and>
        percentage_difference r = Fin (4412120259939533 / 70368744177664) \<and>
        cheaper_option r = Some Product_a) \<and>
   (\<exists>r. compare_price ascii_decimal (priced (Some (PStr (lit ''0.3''))))
          (priced (Some (PStr (lit ''0.1'')))) = Inr r \<and>
        difference r = Fin (7205759403792793 / 36028797018963968) \<and>
        difference r \<noteq> Fin (1 / 5) \<and>
        percentage_difference r = Fin (4693595236650189 / 70368744177664) \<and>
        cheaper_option r = Some Product_b)"
proof -
  have a: "extract_price ascii_decimal
             (get_or (p_price (priced (Some (PInt 149)))) (PInt 0)) = Inr (Fin 149)"
    by (simp add: priced_def get_or_def extract_price_def number_to_float_def double_149)
  have b: "extract_price ascii_decimal
             (get_or (p_price (priced (Some (PInt 400)))) (PInt 0)) = Inr (Fin 400)"
    by (simp add: priced_def get_or_def extract_price_def number_to_float_def double_400)
  obtain r where
    r: "compare_price ascii_decimal (priced (Some (PInt 149))) (priced (Some (PInt 400))) =
          Inr r"
       "difference r = fabs (fsub (Fin 149) (Fin 400))"
       "percentage_difference r =
          round1 (if (149::rat) = 0 \<and> (400::rat) = 0 then Fin 0
                  else fmul (fquot (difference r) (Fin (max 149 400))) (Fin 100))"
       "cheaper_option r =
          (if (149::rat) < 400 then Some Product_a
           else if (400::rat) < 149 then Some Product_b else None)"
    using compare_price_dimension [OF a b] by auto
  have d: "difference r = Fin 251"
    using r(2) sub_149_400 by simp
  have "percentage_difference r = round1 (fmul (fquot (Fin 251) (Fin 400)) (Fin 100))"
    using r(3) d by simp
  then have p: "percentage_difference r = Fin (4412120259939533 / 70368744177664)"
    using percent_149_400 double_62_7 by simp
  have c: "cheaper_option r = Some Product_a"
    using r(4) by simp
  have a': "extract_price ascii_decimal
              (get_or (p_price (priced (Some (PStr (lit ''0.3''))))) (PInt 0)) =
            Inr (Fin (5404319552844595 / 18014398509481984))"
    by (simp add: priced_def number_defs double_0_3)
  have b': "extract_price ascii_decimal
              (get_or (p_price (priced (Some (PStr (lit ''0.1''))))) (PInt 0)) =
            Inr (Fin (3602879701896397 / 36028797018963968))"
    by (simp add: priced_def number_defs double_0_1)
  obtain r' where
    r': "compare_price ascii_decimal (priced (Some (PStr (lit ''0.3''))))
           (priced (Some (PStr (lit ''0.1'')))) = Inr r'"
        "difference r' =
           fabs (fsub (Fin (5404319552844595 / 18014398509481984))
                      (Fin (3602879701896397 / 36028797018963968)))"
        "percentage_difference r' =
           round1 (if (5404319552844595 / 18014398509481984 :: rat) = 0 \<and>
                      (3602879701896397 / 36028797018963968 :: rat) = 0 then Fin 0
                   else fmul (fquot (difference r')
                                (Fin (max (5404319552844595 / 18014398509481984)
                                          (3602879701896397 / 36028797018963968))))
                          (Fin 100))"
        "cheaper_option r' =
           (if (5404319552844595 / 18014398509481984 :: rat) <
               3602879701896397 / 36028797018963968 then Some Product_a
            else if (3602879701896397 / 36028797018963968 :: rat) <
                    5404319552844595 / 18014398509481984 then Some Product_b
            else None)"
    using compare_price_dimension [OF a' b'] by auto
  have d': "difference r' = Fin (7205759403792793 / 36028797018963968)"
    using r'(2) sub_0_3_0_1 by simp
  have m: "max (5404319552844595 / 18014398509481984 :: rat)
               (3602879701896397 / 36028797018963968) =
           5404319552844595 / 18014398509481984"
    by simp
  have "percentage_difference r' =
          round1 (fmul (fquot (Fin (7205759403792793 / 36028797018963968))
                          (Fin (5404319552844595 / 18014398509481984))) (Fin 100))"
    using r'(3) unfolding d' m by simp
  then have p': "percentage_difference r' = Fin (4693595236650189 / 70368744177664)"
    using percent_0_3_0_1 by simp
  have c': "cheaper_option r' = Some Product_b"
    using r'(4) by simp
  have n': "difference r' \<noteq> Fin (1 / 5)"
    unfolding d' by simp
  have first: "\<exists>r. compare_price ascii_decimal (priced (Some (PInt 149)))
                     (priced (Some (PInt 400))) = Inr r \<and>
                   difference r = Fin 251 \<and>
                   percentage_difference r = Fin (4412120259939533 / 70368744177664) \<and>
                   cheaper_option r = Some Product_a"
    using r(1) d p c by blast
  have second: "\<exists>r. compare_price ascii_decimal (priced (Some (PStr (lit ''0.3''))))
                      (priced (Some (PStr (lit ''0.1'')))) = Inr r \<and>
                    difference r = Fin (7205759403792793 / 36028797018963968) \<and>
                    difference r \<noteq> Fin (1 / 5) \<and>
                    percentage_difference r = Fin (4693595236650189 / 70368744177664) \<and>
                    cheaper_option r = Some Product_b"
    using r'(1) d' n' p' c' by blast
  show ?thesis
    using a b first second by (intro conjI)
qed

text \<open>
  C3: for every pair of product records for which the comparison returns (it raises only
  what the extraction of one of the two prices raises), each of the dimensions
  ingredients, benefits and price gives one point to the side with the strictly larger
  ingredient count, the strictly larger benefit count and the strictly lower extracted
  price, and no point to either side on a tie; the winner is the side with the strictly
  higher total, and equal totals give the outcome \<open>Tie\<close>.
\<close>

theorem scoring_by_dimension:
  "(case compare_products lower dv a b of
      Inl e \<Rightarrow>
        extract_price dv (get_or (p_price a) (PInt 0)) = Inl e \<or>
        extract_price dv (get_or (p_price b) (PInt 0)) = Inl e
    | Inr r \<Rightarrow>
        (case (extract_price dv (get_or (p_price a) (PInt 0)),
               extract_price dv (get_or (p_price b) (PInt 0))) of
           (Inr pa, Inr pb) \<Rightarrow>
             (let ia = length (get_or (p_ingredients a) []);
                  ib = length (get_or (p_ingredients b) []);
                  ba = length (get_or (p_benefits a) []);
                  bb = length (get_or (p_benefits b) []);
                  sa = product_a_score (cmp_scores r);
                  sb = product_b_score (cmp_scores r)
              in sa = (if ia > ib then 1 else 0) + (if ba > bb then 1 else 0) +
                      (if flt pa pb then 1 else 0) \<and>
                 sb = (if ib > ia then 1 else 0) + (if bb > ba then 1 else 0) +
                      (if flt pb pa then 1 else 0) \<and>
                 winner (cmp_scores r) =
                   (if sa > sb then Winner Product_a
                    else if sb > sa then Winner Product_b
                    else Tie))
         | _ \<Rightarrow> False))"
proof (cases "extract_price dv (get_or (p_price a) (PInt 0))")
  case (Inl e)
  then show ?thesis
    by (simp add: compare_products_def compare_price_def and_then_def Let_def)
next
  case a: (Inr pa)
  show ?thesis
  proof (cases "extract_price dv (get_or (p_price b) (PInt 0))")
    case (Inl e)
    then show ?thesis using a
      by (simp add: compare_products_def compare_price_def and_then_def Let_def)
  next
    case b: (Inr pb)
    have nz: "flt (Fin 0) (pymax pa pb) \<Longrightarrow> pymax pa pb \<noteq> Fin 0"
      by (rule flt_zero_pymax)
    have nab: "\<not> (flt pa pb \<and> flt pb pa)"
      by (cases pa; cases pb) auto
    show ?thesis
      using a b nz nab
      by (simp add: compare_products_def compare_price_def and_then_def Let_def fdiv_def
            compare_ingredients_def compare_benefits_def calculate_scores_def)
  qed
qed

theorem scoring_by_dimension_witness:
  "(case compare_products id ascii_decimal sample_a sample_b of
      Inl e \<Rightarrow> False
    | Inr r \<Rightarrow>
        product_a_score (cmp_scores r) = 0 \<and> product_b_score (cmp_scores r) = 3 \<and>
        winner (cmp_scores r) = Winner Product_b)"
proof -
  have a: "extract_price ascii_decimal (get_or (p_price sample_a) (PInt 0)) = Inr (Fin 699)"
    by (simp add: sample_a_def get_or_def extract_price_def number_to_float_def double_699)
  have b: "extract_price ascii_decimal (get_or (p_price sample_b) (PInt 0)) = Inr (Fin 599)"
    by (simp add: sample_b_def get_or_def extract_price_def number_to_float_def double_599)
  have l: "length (get_or (p_ingredients sample_a) []) = 2"
          "length (get_or (p_ingredients sample_b) []) = 3"
          "length (get_or (p_benefits sample_a) []) = 2"
          "length (get_or (p_benefits sample_b) []) = 3"
    by (simp_all add: sample_a_def sample_b_def get_or_def)
  show ?thesis
    using scoring_by_dimension [where lower = id and dv = ascii_decimal and a = sample_a
            and b = sample_b] a b l
    by (auto simp: Let_def split: sum.splits)
qed

section \<open>Properties of the safety block\<close>

lemma should_recommend_patch_test_True:
  "should_recommend_patch_test lower side_effects ingredients"
  by (simp add: should_recommend_patch_test_def)

lemma greater_than_number:
  "numeric_concentration p \<Longrightarrow>
   \<exists>h. greater_than (get_or (p_concentration p) (PInt 0)) 15 = Inr h"
  by (auto simp: numeric_concentration_def get_or_def greater_than_def
           split: option.splits pyval.splits)

lemma generate_warnings_number:
  "greater_than c 15 = Inr h \<Longrightarrow> \<exists>ws. generate_warnings lower ingredients c = Inr ws"
  by (simp add: generate_warnings_def Let_def)

text \<open>
  C10: for every product record, whatever its side-effects text and its list of
  ingredients, the safety block that \<open>generate_safety\<close> returns has
  \<open>patch_test_recommended\<close> true; and a block is returned whenever the concentration
  is a number or absent, as it is in every product record.
\<close>

theorem patch_test_always_recommended:
  "(\<forall>blk. generate_safety lower p = Inr blk \<longrightarrow> patch_test_recommended blk) \<and>
   (numeric_concentration p \<longrightarrow>
      (\<exists>blk. generate_safety lower p = Inr blk \<and> patch_test_recommended blk))"
proof (intro conjI allI impI)
  fix blk
  assume "generate_safety lower p = Inr blk"
  then show "patch_test_recommended blk"
    by (auto simp: generate_safety_def Let_def should_recommend_patch_test_True
             split: sum.splits)
next
  assume n: "numeric_concentration p"
  obtain h where h: "greater_than (get_or (p_concentration p) (PInt 0)) 15 = Inr h"
    using greater_than_number [OF n] by blast
  obtain ws where
    w: "generate_warnings lower (get_or (p_ingredients p) [])
          (get_or (p_concentration p) (PInt 0)) = Inr ws"
    using generate_warnings_number [OF h] by blast
  show "\<exists>blk. generate_safety lower p = Inr blk \<and> patch_test_recommended blk"
    using w by (simp add: generate_safety_def Let_def should_recommend_patch_test_True)
qed

theorem patch_test_always_recommended_witness:
  "numeric_concentration safety_sample \<and>
   (\<exists>blk. generate_safety ascii_lower safety_sample = Inr blk \<and> patch_test_recommended blk)"
proof -
  have n: "numeric_concentration safety_sample"
    by (simp add: numeric_concentration_def safety_sample_def)
  show ?thesis
    using patch_test_always_recommended [of ascii_lower safety_sample] n by blast
qed

section \<open>Properties of the product parser\<close>

lemma takeWhile_digits:
  assumes "\<forall>c\<in>set ds. dv c \<noteq> None" and "no_digit_first dv rest"
  shows "takeWhile (is_decimal dv) (ds @ rest) = ds"
    and "dropWhile (is_decimal dv) (ds @ rest) = rest"
  using assms
  by (cases rest; simp add: is_decimal_def no_digit_first_def)+

lemma skip_prefix:
  assumes "\<forall>c\<in>set pre. dv c = None" and "ds \<noteq> []" and "\<forall>c\<in>set ds. dv c \<noteq> None"
  shows "dropWhile (\<lambda>c. \<not> is_decimal dv c) (pre @ ds @ rest) = ds @ rest"
proof -
  obtain d ds' where d: "ds = d # ds'" using assms(2) by (cases ds) auto
  then have nd: "dv d \<noteq> None" using assms(3) by simp
  have "dropWhile (\<lambda>c. \<not> is_decimal dv c) (pre @ (ds @ rest)) =
        dropWhile (\<lambda>c. \<not> is_decimal dv c) (ds @ rest)"
    by (rule dropWhile_append2) (use assms(1) in \<open>simp add: is_decimal_def\<close>)
  also have "\<dots> = ds @ rest"
    using d nd by (auto simp: is_decimal_def)
  finally show ?thesis .
qed

lemma number_match_integer:
  assumes "\<forall>c\<in>set pre. dv c = None" and "ds \<noteq> []" and "\<forall>c\<in>set ds. dv c \<noteq> None"
      and "no_digit_first dv rest" and "\<not> fraction_first dv rest"
  shows "number_match dv (pre @ ds @ rest) = Some ds"
proof -
  have 1: "dropWhile (\<lambda>c. \<not> is_decimal dv c) (pre @ ds @ rest) = ds @ rest"
    using assms(1-3) by (rule skip_prefix)
  have 2: "takeWhile (is_decimal dv) (ds @ rest) = ds"
    and 3: "dropWhile (is_decimal dv) (ds @ rest) = rest"
    using assms(3,4) by (rule takeWhile_digits)+
  have 4: "number_match dv (pre @ ds @ rest) =
             (case rest of
                [] \<Rightarrow> Some ds
              | c # r' \<Rightarrow>
                  if c = 46 \<and> takeWhile (is_decimal dv) r' \<noteq> []
                  then Some (ds @ [46] @ takeWhile (is_decimal dv) r')
                  else Some ds)"
    unfolding number_match_def Let_def 1 2 3 using assms(2) by simp
  have "c = 46 \<Longrightarrow> takeWhile (is_decimal dv) r' = []" if "rest = c # r'" for c r'
    using assms(5) that by (cases r') (auto simp: fraction_first_def is_decimal_def)
  then show ?thesis
    unfolding 4 by (cases rest) auto
qed

lemma number_match_fraction:
  assumes "\<forall>c\<in>set pre. dv c = None" and "ds \<noteq> []" and "\<forall>c\<in>set ds. dv c \<noteq> None"
      and "fs \<noteq> []" and "\<forall>c\<in>set fs. dv c \<noteq> None" and "no_digit_first dv rest"
      and "dv 46 = None"
  shows "number_match dv (pre @ ds @ 46 # fs @ rest) = Some (ds @ 46 # fs)"
proof -
  have nd: "no_digit_first dv (46 # fs @ rest)"
    using assms(7) by (simp add: no_digit_first_def)
  have 1: "dropWhile (\<lambda>c. \<not> is_decimal dv c) (pre @ ds @ 46 # fs @ rest) = ds @ 46 # fs @ rest"
    using assms(1-3) by (rule skip_prefix)
  have 2: "takeWhile (is_decimal dv) (ds @ 46 # fs @ rest) = ds"
    and 3: "dropWhile (is_decimal dv) (ds @ 46 # fs @ rest) = 46 # fs @ rest"
    using assms(3) nd by (rule takeWhile_digits)+
  have 4: "takeWhile (is_decimal dv) (fs @ rest) = fs"
    using assms(5,6) by (rule takeWhile_digits)
  show ?thesis
    unfolding number_match_def Let_def 1 2 3 using assms(2,4) by (simp add: 4)
qed

lemma no_dot:
  assumes "\<forall>c\<in>set ds. dv c \<noteq> None" and "dv 46 = None"
  shows "takeWhile (\<lambda>c. c \<noteq> 46) (ds @ rest) = ds @ takeWhile (\<lambda>c. c \<noteq> 46) rest"
  using assms by (intro takeWhile_append2) auto

lemma decimal_value_integer:
  assumes "\<forall>c\<in>set ds. dv c \<noteq> None" and "dv 46 = None"
  shows "decimal_value dv ds = of_nat (digits_value dv ds)"
proof -
  have t: "takeWhile (\<lambda>c. c \<noteq> 46) ds = ds"
    using no_dot [OF assms, of "[]"] by simp
  show ?thesis
    unfolding decimal_value_def Let_def t by (simp add: digits_value_def)
qed

lemma decimal_value_fraction:
  assumes "\<forall>c\<in>set ds. dv c \<noteq> None" and "dv 46 = None"
  shows "decimal_value dv (ds @ 46 # fs) =
           of_nat (digits_value dv ds) + of_nat (digits_value dv fs) / 10 ^ length fs"
proof -
  have t: "takeWhile (\<lambda>c. c \<noteq> 46) (ds @ 46 # fs) = ds"
    using no_dot [OF assms, of "46 # fs"] by simp
  show ?thesis
    unfolding decimal_value_def Let_def t by simp
qed

lemma number_match_none:
  "\<forall>c\<in>set s. dv c = None \<Longrightarrow> number_match dv s = None"
  by (simp add: number_match_def is_decimal_def Let_def)

lemma first_number_none: "\<forall>c\<in>set s. dv c = None \<Longrightarrow> first_number dv s = Fin 0"
  by (simp add: first_number_def number_match_none)

lemma remove_currency_no_digit:
  "\<forall>c\<in>set s. dv c = None \<Longrightarrow> \<forall>c\<in>set (remove_currency s). dv c = None"
  by (simp add: remove_currency_def)

lemma int_to_float_small: "\<bar>n\<bar> \<le> 2 ^ 53 \<Longrightarrow> int_to_float n = Inr (Fin (of_int n))"
  by (simp add: int_to_float_def nearest_double_small_int)

lemma int_to_float_huge:
  "2 ^ 1024 \<le> \<bar>n\<bar> \<Longrightarrow>
   int_to_float n = Inl (OverflowError (lit ''int too large to convert to float''))"
proof -
  assume "2 ^ 1024 \<le> \<bar>n\<bar>"
  then have "(of_int (2 ^ 1024) :: rat) \<le> of_int \<bar>n\<bar>" by (simp only: of_int_le_iff)
  then have "(2 :: rat) ^ 1024 \<le> \<bar>of_int n\<bar>" by simp
  then have "nearest_double (of_int n) = infinity (0 < (of_int n :: rat))"
    by (rule nearest_double_huge)
  then show ?thesis by (simp add: int_to_float_def infinity_def)
qed

lemma first_number_huge:
  "2 ^ 1024 \<le> x \<Longrightarrow> nearest_double x = PosInf"
proof -
  assume a: "2 ^ 1024 \<le> x"
  have "(0 :: rat) < 2 ^ 1024" by simp
  then have pos: "0 < x" using a by (rule less_le_trans)
  then have "2 ^ 1024 \<le> \<bar>x\<bar>" using a by simp
  then show ?thesis using pos by (simp add: nearest_double_huge infinity_def)
qed

lemma int_to_float_cases:
  "(\<exists>x. nearest_double (of_int n) = Fin x \<and> int_to_float n = Inr (Fin x)) \<or>
   int_to_float n = Inl (OverflowError (lit ''int too large to convert to float''))"
  by (cases "nearest_double (of_int n)") (simp_all add: int_to_float_def)

lemma double_1299: "nearest_double 1299 = Fin 1299"
  using nearest_double_small_int [of 1299] by simp

lemma double_1: "nearest_double 1 = Fin 1"
  using nearest_double_small_int [of 1] by simp

lemma double_10: "nearest_double 10 = Fin 10"
  using nearest_double_small_int [of 10] by simp

lemma double_15: "nearest_double 15 = Fin 15"
  using nearest_double_small_int [of 15] by simp

lemma double_15_5: "nearest_double (31 / 2) = Fin (31 / 2)"
  by code_simp

lemma double_29_99:
  "nearest_double (2999 / 100) = Fin (8441434551552573 / 281474976710656)"
  by code_simp

lemma double_2_53_1: "nearest_double 9007199254740993 = Fin 9007199254740992"
  by code_simp

text \<open>
  C7, as stated, fails for the concentration: its extraction deletes nothing from the
  text, so the rupee text "1,299" gives 1.0 there, not 1299.0.
\<close>

theorem concentration_keeps_commas_counterexample:
  "parser_extract_concentration ascii_decimal no_text (PStr (8377 # lit ''1,299'')) =
     Inr (Fin 1) \<and>
   parser_extract_concentration ascii_decimal no_text (PStr (8377 # lit ''1,299'')) \<noteq>
     Inr (Fin 1299)"
  by (simp add: parser_extract_concentration_def text_of_def number_defs double_1)

text \<open>
  C7, amended: for every input value both extractions return a float unchanged and, for an
  integer, the nearest double (the integer itself up to 2^53 in absolute value) or the
  \<open>OverflowError\<close> of an integer beyond the doubles (every integer from 2^1024 on);
  a Boolean counts as the integer 1 or 0. For any other value the price extraction deletes currency signs, commas and white
  space from the text while the concentration extraction takes the text as it is, and
  each returns the double nearest to the first number of its text: the first run of
  digits, with a full stop and a further run of digits when they follow at once; that
  double is \<open>inf\<close> for a number from 2^1024 on. A text without a digit gives 0.0. In particular the price of the rupee text "1,299" is 1299.0
  and of "$29.99" is the double 29.99, "15.5% Active" gives 15.5 and the empty text 0.0
  for both.
\<close>

theorem numeric_extraction:
  "parser_extract_price dv ts (PFloat f) = Inr f \<and>
   parser_extract_concentration dv ts (PFloat f) = Inr f \<and>
   parser_extract_price dv ts (PInt n) = int_to_float n \<and>
   parser_extract_concentration dv ts (PInt n) = int_to_float n \<and>
   parser_extract_price dv ts (PBool b) = Inr (Fin (if b then 1 else 0)) \<and>
   parser_extract_concentration dv ts (PBool b) = Inr (Fin (if b then 1 else 0)) \<and>
   (\<bar>n\<bar> \<le> 2 ^ 53 \<longrightarrow> int_to_float n = Inr (Fin (of_int n))) \<and>
   (2 ^ 1024 \<le> \<bar>n\<bar> \<longrightarrow>
      int_to_float n = Inl (OverflowError (lit ''int too large to convert to float''))) \<and>
   (2 ^ 1024 \<le> x \<longrightarrow> nearest_double x = PosInf) \<and>
   ((\<exists>x. nearest_double (of_int n) = Fin x \<and> int_to_float n = Inr (Fin x)) \<or>
    int_to_float n = Inl (OverflowError (lit ''int too large to convert to float''))) \<and>
   (\<not> is_number v \<longrightarrow>
      parser_extract_price dv ts v =
        Inr (first_number dv (filter (\<lambda>c. \<not> currency_class c) (text_of ts v))) \<and>
      parser_extract_concentration dv ts v = Inr (first_number dv (text_of ts v))) \<and>
   ((\<forall>c\<in>set s. dv c = None) \<longrightarrow>
      parser_extract_price dv ts (PStr s) = Inr (Fin 0) \<and>
      parser_extract_concentration dv ts (PStr s) = Inr (Fin 0)) \<and>
   ((\<forall>c\<in>set pre. dv c = None) \<and> ds \<noteq> [] \<and> (\<forall>c\<in>set ds. dv c \<noteq> None) \<and>
    dv 46 = None \<and> no_digit_first dv rest \<longrightarrow>
      (\<not> fraction_first dv rest \<longrightarrow>
         first_number dv (pre @ ds @ rest) = nearest_double (of_nat (digits_value dv ds))) \<and>
      (fs \<noteq> [] \<and> (\<forall>c\<in>set fs. dv c \<noteq> None) \<longrightarrow>
         first_number dv (pre @ ds @ 46 # fs @ rest) =
           nearest_double
             (of_nat (digits_value dv ds) + of_nat (digits_value dv fs) / 10 ^ length fs))) \<and>
   parser_extract_price ascii_decimal ts (PStr (8377 # lit ''1,299'')) = Inr (Fin 1299) \<and>
   parser_extract_price ascii_decimal ts (PStr (lit ''$29.99'')) =
     Inr (nearest_double (2999 / 100)) \<and>
   parser_extract_price ascii_decimal ts (PStr (lit ''15.5% Active'')) = Inr (Fin (31 / 2)) \<and>
   parser_extract_concentration ascii_decimal ts (PStr (lit ''15.5% Active'')) =
     Inr (Fin (31 / 2)) \<and>
   parser_extract_price ascii_decimal ts (PStr []) = Inr (Fin 0) \<and>
   parser_extract_concentration ascii_decimal ts (PStr []) = Inr (Fin 0)"
proof -
  have num: "parser_extract_price dv ts (PFloat f) = Inr f \<and>
   parser_extract_concentration dv ts (PFloat f) = Inr f \<and>
   parser_extract_price dv ts (PInt n) = int_to_float n \<and>
   parser_extract_concentration dv ts (PInt n) = int_to_float n \<and>
   parser_extract_price dv ts (PBool b) = Inr (Fin (if b then 1 else 0)) \<and>
   parser_extract_concentration dv ts (PBool b) = Inr (Fin (if b then 1 else 0))"
    by (simp add: parser_extract_price_def parser_extract_concentration_def
          number_to_float_def)
  have small: "\<bar>n\<bar> \<le> 2 ^ 53 \<longrightarrow> int_to_float n = Inr (Fin (of_int n))"
    using int_to_float_small by blast
  have huge: "(2 ^ 1024 \<le> \<bar>n\<bar> \<longrightarrow>
      int_to_float n = Inl (OverflowError (lit ''int too large to convert to float''))) \<and>
   (2 ^ 1024 \<le> x \<longrightarrow> nearest_double x = PosInf)"
    using int_to_float_huge [of n] first_number_huge [of x] by blast
  have other: "\<not> is_number v \<longrightarrow>
      parser_extract_price dv ts v =
        Inr (first_number dv (filter (\<lambda>c. \<not> currency_class c) (text_of ts v))) \<and>
      parser_extract_concentration dv ts v = Inr (first_number dv (text_of ts v))"
    by (auto simp: is_number_def parser_extract_price_def parser_extract_concentration_def
          remove_currency_def)
  have none: "(\<forall>c\<in>set s. dv c = None) \<longrightarrow>
      parser_extract_price dv ts (PStr s) = Inr (Fin 0) \<and>
      parser_extract_concentration dv ts (PStr s) = Inr (Fin 0)"
    using remove_currency_no_digit [of s dv]
    by (simp add: parser_extract_price_def parser_extract_concentration_def
          number_to_float_def text_of_def first_number_none)
  have dec: "(\<forall>c\<in>set pre. dv c = None) \<and> ds \<noteq> [] \<and> (\<forall>c\<in>set ds. dv c \<noteq> None) \<and>
    dv 46 = None \<and> no_digit_first dv rest \<longrightarrow>
      (\<not> fraction_first dv rest \<longrightarrow>
         first_number dv (pre @ ds @ rest) = nearest_double (of_nat (digits_value dv ds))) \<and>
      (fs \<noteq> [] \<and> (\<forall>c\<in>set fs. dv c \<noteq> None) \<longrightarrow>
         first_number dv (pre @ ds @ 46 # fs @ rest) =
           nearest_double
             (of_nat (digits_value dv ds) + of_nat (digits_value dv fs) / 10 ^ length fs))"
    by (simp add: first_number_def py_float_def number_match_integer number_match_fraction
          decimal_value_integer decimal_value_fraction)
  have ex: "parser_extract_price ascii_decimal ts (PStr (8377 # lit ''1,299'')) = Inr (Fin 1299) \<and>
   parser_extract_price ascii_decimal ts (PStr (lit ''$29.99'')) =
     Inr (nearest_double (2999 / 100)) \<and>
   parser_extract_price ascii_decimal ts (PStr (lit ''15.5% Active'')) = Inr (Fin (31 / 2)) \<and>
   parser_extract_concentration ascii_decimal ts (PStr (lit ''15.5% Active'')) =
     Inr (Fin (31 / 2)) \<and>
   parser_extract_price ascii_decimal ts (PStr []) = Inr (Fin 0) \<and>
   parser_extract_concentration ascii_decimal ts (PStr []) = Inr (Fin 0)"
    by (simp add: parser_extract_price_def parser_extract_concentration_def text_of_def
          number_defs double_1299 double_15_5)
  show ?thesis
    using num small huge int_to_float_cases [of n] other none dec ex by blast
qed

theorem numeric_extraction_witness:
  "\<not> is_number (PStr (lit ''10% Vitamin C, 5% Niacinamide'')) \<and>
   ascii_decimal 46 = None \<and> no_digit_first ascii_decimal (lit ''% Active'') \<and>
   \<not> fraction_first ascii_decimal (lit ''% Active'') \<and>
   int_to_float 699 = Inr (Fin 699) \<and>
   parser_extract_concentration ascii_decimal no_text
     (PStr (lit ''10% Vitamin C, 5% Niacinamide'')) = Inr (Fin 10) \<and>
   parser_extract_price ascii_decimal no_text (PStr (lit ''N/A'')) = Inr (Fin 0) \<and>
   first_number ascii_decimal (lit ''about '' @ lit ''15'' @ lit ''% Active'') = Fin 15 \<and>
   first_number ascii_decimal (lit ''about '' @ lit ''15'' @ 46 # lit ''5'' @ lit ''% Active'')
     = Fin (31 / 2) \<and>
   first_number ascii_decimal ([] @ lit ''9007199254740993'' @ []) = Fin 9007199254740992 \<and>
   int_to_float (2 ^ 1024) =
     Inl (OverflowError (lit ''int too large to convert to float'')) \<and>
   nearest_double (2 ^ 1024) = PosInf"
proof -
  have h: "\<not> is_number (PStr (lit ''10% Vitamin C, 5% Niacinamide'')) \<and>
   (\<forall>c\<in>set (lit ''N/A''). ascii_decimal c = None) \<and>
   (\<forall>c\<in>set (lit ''about ''). ascii_decimal c = None) \<and>
   (\<forall>c\<in>set (lit ''15''). ascii_decimal c \<noteq> None) \<and>
   (\<forall>c\<in>set (lit ''5''). ascii_decimal c \<noteq> None) \<and>
   ascii_decimal 46 = None \<and> no_digit_first ascii_decimal (lit ''% Active'') \<and>
   \<not> fraction_first ascii_decimal (lit ''% Active'') \<and> lit ''15'' \<noteq> [] \<and> lit ''5'' \<noteq> [] \<and>
   \<bar>699 :: int\<bar> \<le> 2 ^ 53"
    by (simp add: is_number_def number_to_float_def lit_def ascii_decimal_def
          no_digit_first_def fraction_first_def)
  have t: "first_number ascii_decimal
             (text_of no_text (PStr (lit ''10% Vitamin C, 5% Niacinamide''))) = Fin 10"
    by (simp add: text_of_def number_defs double_10)
  have d: "digits_value ascii_decimal (lit ''15'') = 15 \<and>
           digits_value ascii_decimal (lit ''5'') = 5 \<and> length (lit ''5'') = 1"
    by (simp add: number_defs)
  have r: "(15 :: rat) + 5 / 10 = 31 / 2"
    by simp
  have g: "(\<forall>c\<in>set []. ascii_decimal c = None) \<and> lit ''9007199254740993'' \<noteq> [] \<and>
           (\<forall>c\<in>set (lit ''9007199254740993''). ascii_decimal c \<noteq> None) \<and>
           no_digit_first ascii_decimal [] \<and> \<not> fraction_first ascii_decimal [] \<and>
           digits_value ascii_decimal (lit ''9007199254740993'') = 9007199254740993"
    by (simp add: number_defs no_digit_first_def fraction_first_def)
  have w1: "int_to_float 699 = Inr (Fin 699) \<and>
   parser_extract_concentration ascii_decimal no_text
     (PStr (lit ''10% Vitamin C, 5% Niacinamide'')) = Inr (Fin 10) \<and>
   parser_extract_price ascii_decimal no_text (PStr (lit ''N/A'')) = Inr (Fin 0) \<and>
   first_number ascii_decimal (lit ''about '' @ lit ''15'' @ lit ''% Active'') = Fin 15 \<and>
   first_number ascii_decimal (lit ''about '' @ lit ''15'' @ 46 # lit ''5'' @ lit ''% Active'')
     = Fin (31 / 2)"
    using numeric_extraction [where dv = ascii_decimal and ts = no_text and n = 699
            and v = "PStr (lit ''10% Vitamin C, 5% Niacinamide'')" and s = "lit ''N/A''"
            and pre = "lit ''about ''" and ds = "lit ''15''" and rest = "lit ''% Active''"
            and fs = "lit ''5''"] h t d r double_15 double_15_5
    by simp
  have w2: "first_number ascii_decimal ([] @ lit ''9007199254740993'' @ []) =
              Fin 9007199254740992"
    using numeric_extraction [where dv = ascii_decimal and ts = no_text
            and pre = "[]" and ds = "lit ''9007199254740993''" and rest = "[]"] h g
          double_2_53_1
    by simp
  have w3: "int_to_float (2 ^ 1024) =
              Inl (OverflowError (lit ''int too large to convert to float'')) \<and>
            nearest_double (2 ^ 1024) = PosInf"
    using numeric_extraction [where n = "2 ^ 1024" and x = "2 ^ 1024"]
    by simp
  show ?thesis
    using h w1 w2 w3 by blast
qed

lemma clean_items_strings:
  "list_all (\<lambda>i. is_string (Some i)) items \<Longrightarrow> \<exists>xs. clean_items ts items = Inr xs"
proof (induction items)
  case Nil
  then show ?case by simp
next
  case (Cons item items)
  then obtain s where s: "item = PStr s"
    by (auto simp: is_string_def split: pyval.splits)
  from Cons obtain xs where xs: "clean_items ts items = Inr xs" by auto
  show ?case using s xs by (simp add: and_then_def str_method_def)
qed

lemma normalize_array_strings:
  "is_string_array v \<Longrightarrow> \<exists>xs. normalize_array ts (get_or v d) = Inr xs"
  by (auto simp: is_string_array_def normalize_array_def get_or_def clean_items_strings
           split: option.splits pyval.splits)

lemma extract_string:
  "is_string v \<Longrightarrow>
   (\<exists>x. parser_extract_concentration dv ts (get_or v d) = Inr x) \<and>
   (\<exists>y. parser_extract_price dv ts (get_or v d) = Inr y)"
  by (auto simp: is_string_def parser_extract_concentration_def parser_extract_price_def
        number_to_float_def get_or_def split: option.splits pyval.splits)

lemma str_method_string:
  "is_string v \<Longrightarrow> \<exists>s. str_method n (get_or v d) = Inr s"
  by (auto simp: is_string_def str_method_def get_or_def split: option.splits pyval.splits)

text \<open>
  C8, as stated, fails: two runs that draw different UUIDs with the same first eight
  characters normalise the same input to the same record, identifier included.
\<close>

theorem same_uuid_prefix_counterexample:
  "valid_input raw_sample \<and> uuid_one \<noteq> uuid_two \<and>
   normalize ascii_lower ascii_decimal no_text uuid_one raw_sample =
   normalize ascii_lower ascii_decimal no_text uuid_two raw_sample"
  by (simp add: valid_input_def is_string_def is_string_array_def raw_sample_def
        uuid_one_def uuid_two_def normalize_def generate_id_def and_then_def
        str_method_def get_or_def lit_def parser_extract_concentration_def
        parser_extract_price_def number_to_float_def)

text \<open>
  C8, amended: for every valid raw product input, two runs of \<open>normalize\<close> both return
  a record, the two records agree on every field other than the identifier, and the
  identifiers differ exactly when the first eight characters of the two UUIDs drawn
  differ.
\<close>

theorem normalize_twice:
  assumes "valid_input raw"
  shows "\<exists>r1 r2. normalize lower dv ts u1 raw = Inr r1 \<and>
                 normalize lower dv ts u2 raw = Inr r2 \<and>
                 r1\<lparr>p_id := None\<rparr> = r2\<lparr>p_id := None\<rparr> \<and>
                 (p_id r1 = p_id r2 \<longleftrightarrow> take 8 u1 = take 8 u2)"
proof -
  obtain n where n: "get_or (r_product_name raw) (PStr []) = PStr n"
    using assms
    by (auto simp: valid_input_def is_string_def get_or_def split: option.splits pyval.splits)
  obtain skin where skin:
    "normalize_array ts (get_or (r_skin_type raw) (PList [])) = Inr skin"
    using assms normalize_array_strings [of "r_skin_type raw" ts "PList []"]
    by (auto simp: valid_input_def)
  obtain ings where ings:
    "normalize_array ts (get_or (r_key_ingredients raw) (PList [])) = Inr ings"
    using assms normalize_array_strings [of "r_key_ingredients raw" ts "PList []"]
    by (auto simp: valid_input_def)
  obtain bens where bens:
    "normalize_array ts (get_or (r_benefits raw) (PList [])) = Inr bens"
    using assms normalize_array_strings [of "r_benefits raw" ts "PList []"]
    by (auto simp: valid_input_def)
  obtain use where use:
    "str_method (lit ''strip'') (get_or (r_how_to_use raw) (PStr [])) = Inr use"
    using assms str_method_string [of "r_how_to_use raw" "lit ''strip''" "PStr []"]
    by (auto simp: valid_input_def)
  obtain eff where eff:
    "str_method (lit ''strip'') (get_or (r_side_effects raw) (PStr [])) = Inr eff"
    using assms str_method_string [of "r_side_effects raw" "lit ''strip''" "PStr []"]
    by (auto simp: valid_input_def)
  obtain conc where conc:
    "parser_extract_concentration dv ts (get_or (r_concentration raw) (PStr [])) = Inr conc"
    using assms extract_string [of "r_concentration raw" dv ts "PStr []"]
    by (auto simp: valid_input_def)
  obtain cost where cost:
    "parser_extract_price dv ts (get_or (r_price raw) (PStr [])) = Inr cost"
    using assms extract_string [of "r_price raw" dv ts "PStr []"]
    by (auto simp: valid_input_def)
  show ?thesis
    using n skin ings bens use eff conc cost
    by (simp add: normalize_def generate_id_def and_then_def str_method_def)
qed

theorem normalize_twice_witness:
  "valid_input raw_sample \<and>
   (\<exists>r1 r2. normalize ascii_lower ascii_decimal no_text uuid_one raw_sample = Inr r1 \<and>
            normalize ascii_lower ascii_decimal no_text uuid_three raw_sample = Inr r2 \<and>
            r1\<lparr>p_id := None\<rparr> = r2\<lparr>p_id := None\<rparr> \<and> p_id r1 \<noteq> p_id r2)"
proof -
  have v: "valid_input raw_sample"
    by (simp add: valid_input_def is_string_def is_string_array_def raw_sample_def)
  have u: "take 8 uuid_one \<noteq> take 8 uuid_three"
    by (simp add: uuid_one_def uuid_three_def lit_def)
  show ?thesis
    using normalize_twice [OF v, of ascii_lower ascii_decimal no_text uuid_one uuid_three] v u
    by auto
qed

section \<open>Properties of question selection\<close>

lemma fill_from_eq:
  "fill_from m c qs selected =
     selected @ map (\<lambda>q. \<lparr>question = q, category = c\<rparr>) (take (m + 2 - length selected) qs)"
proof (induction qs arbitrary: selected)
  case Nil
  then show ?case by simp
next
  case (Cons q qs)
  show ?case
  proof (cases "length selected \<ge> m + 2")
    case True
    then show ?thesis by simp
  next
    case False
    then have "m + 2 - length selected = Suc (m + 2 - length (selected @ [\<lparr>question = q, category = c\<rparr>]))"
      by simp
    then show ?thesis using False Cons.IH [of "selected @ [\<lparr>question = q, category = c\<rparr>]"]
      by simp
  qed
qed

lemma take_min_drop: "take (min (length xs - d) n) (drop d xs) = take n (drop d xs)"
  by (simp add: min_def)

lemma backfill_Nil: "backfill m questions [] k = []"
  by (simp add: backfill_def later_counts_def)

lemma backfill_Cons:
  "backfill m questions (c # cs) k =
     (if m \<le> k then backfill m questions cs k
      else later_questions questions c (m + 2 - k) @
           backfill m questions cs
             (k + min (length (drop 1 (get_or (questions c) []))) (m + 2 - k)))"
  by (simp add: backfill_def later_counts_def later_questions_def take_min_drop)

lemma backfill_done: "m \<le> k \<Longrightarrow> backfill m questions cs k = []"
  by (induction cs) (simp_all add: backfill_Nil backfill_Cons)

lemma later_questions_length:
  "length (later_questions questions c n) =
     min (length (drop 1 (get_or (questions c) []))) n"
  by (simp add: later_questions_def)

lemma second_pass_backfill:
  "second_pass m questions cs selected =
     selected @ backfill m questions cs (length selected)"
proof (induction cs arbitrary: selected)
  case Nil
  then show ?case by (simp add: backfill_Nil)
next
  case (Cons c cs)
  show ?case
  proof (cases "length selected \<ge> m")
    case True
    then show ?thesis by (simp add: backfill_done)
  next
    case False
    show ?thesis
    proof (cases "questions c")
      case None
      then show ?thesis
        using False Cons.IH [of selected]
        by (simp add: backfill_Cons later_questions_def get_or_def)
    next
      case (Some qs)
      let ?sel = "fill_from m c (drop 1 qs) selected"
      have s: "?sel = selected @ later_questions questions c (m + 2 - length selected)"
        using Some by (simp add: fill_from_eq later_questions_def get_or_def)
      have l: "length ?sel =
                 length selected +
                 min (length (drop 1 (get_or (questions c) []))) (m + 2 - length selected)"
        unfolding s by (simp only: length_append later_questions_length)
      have "second_pass m questions (c # cs) selected = ?sel @ backfill m questions cs (length ?sel)"
        using False Some Cons.IH [of ?sel] by simp
      also have "\<dots> = selected @ later_questions questions c (m + 2 - length selected) @
                         backfill m questions cs (length ?sel)"
        by (simp only: s [symmetric] append_assoc [symmetric])
      also have "\<dots> = selected @ backfill m questions (c # cs) (length selected)"
        using False by (simp only: l backfill_Cons if_False)
      finally show ?thesis .
    qed
  qed
qed

lemma backfill_length: "k + length (backfill m questions cs k) \<le> max k (m + 2)"
proof (induction cs arbitrary: k)
  case Nil
  then show ?case by (simp add: backfill_Nil)
next
  case (Cons c cs)
  show ?case
  proof (cases "m \<le> k")
    case True
    then show ?thesis by (simp add: backfill_done)
  next
    case False
    let ?n = "min (length (drop 1 (get_or (questions c) []))) (m + 2 - k)"
    have "k + ?n + length (backfill m questions cs (k + ?n)) \<le> max (k + ?n) (m + 2)"
      by (rule Cons.IH)
    moreover have "k + ?n \<le> m + 2" using False by simp
    ultimately show ?thesis
      using False by (simp add: backfill_Cons later_questions_length)
  qed
qed

lemma backfill_enough_or_all:
  "m \<le> k + length (backfill m questions cs k) \<or>
   backfill m questions cs k =
     concat (map (\<lambda>c. map (\<lambda>q. \<lparr>question = q, category = c\<rparr>)
                           (drop 1 (get_or (questions c) []))) cs)"
proof (induction cs arbitrary: k)
  case Nil
  then show ?case by (simp add: backfill_Nil)
next
  case (Cons c cs)
  show ?case
  proof (cases "m \<le> k")
    case True
    then show ?thesis by simp
  next
    case False
    let ?l = "length (drop 1 (get_or (questions c) []))"
    let ?n = "min ?l (m + 2 - k)"
    have b: "backfill m questions (c # cs) k =
               later_questions questions c (m + 2 - k) @ backfill m questions cs (k + ?n)"
      using False by (simp add: backfill_Cons)
    show ?thesis
    proof (cases "?l \<le> m + 2 - k")
      case True
      then have n: "?n = ?l" by simp
      have lq: "later_questions questions c (m + 2 - k) =
                  map (\<lambda>q. \<lparr>question = q, category = c\<rparr>) (drop 1 (get_or (questions c) []))"
        using True by (simp add: later_questions_def)
      from Cons.IH [of "k + ?l"] show ?thesis
      proof
        assume "m \<le> k + ?l + length (backfill m questions cs (k + ?l))"
        then have "m \<le> k + length (backfill m questions (c # cs) k)"
          unfolding b n lq by simp
        then show ?thesis ..
      next
        assume "backfill m questions cs (k + ?l) =
                  concat (map (\<lambda>c. map (\<lambda>q. \<lparr>question = q, category = c\<rparr>)
                                        (drop 1 (get_or (questions c) []))) cs)"
        then have "backfill m questions (c # cs) k =
                     concat (map (\<lambda>c. map (\<lambda>q. \<lparr>question = q, category = c\<rparr>)
                                           (drop 1 (get_or (questions c) []))) (c # cs))"
          unfolding b n lq by simp
        then show ?thesis ..
      qed
    next
      case False
      then have "length (later_questions questions c (m + 2 - k)) = m + 2 - k"
        by (simp add: later_questions_length)
      then have "m \<le> k + length (backfill m questions (c # cs) k)"
        unfolding b by simp
      then show ?thesis ..
    qed
  qed
qed

lemma first_pass_populated:
  "\<forall>c\<in>set cs. \<exists>q qs. questions c = Some (q # qs) \<Longrightarrow>
   first_pass questions cs =
     map (\<lambda>c. \<lparr>question = hd (get_or (questions c) []), category = c\<rparr>) cs"
  by (induction cs) (auto simp: get_or_def)

text \<open>
  C9: for every question set with at least one question in each of the five categories,
  the selection is the first question of every category, in the priority order
  informational, usage, safety, purchase, comparison, followed by the backfill and by
  nothing else. The backfill goes through the categories in the same order and stops at
  the first one that finds the minimum count reached; until then it takes from each
  category the questions after its first one, in their order, as long as the selection
  is shorter than the minimum count plus two. So the selection never grows beyond the
  minimum count plus two (or the five first questions, if that is more), and it reaches
  the minimum count unless it holds every question of the five categories already.
\<close>

theorem selection_covers_categories:
  assumes "\<forall>c\<in>set category_priority. \<exists>q qs. questions c = Some (q # qs)"
  shows "select_questions min_faqs questions =
           map (\<lambda>c. \<lparr>question = hd (get_or (questions c) []), category = c\<rparr>)
               category_priority
           @ backfill min_faqs questions category_priority 5 \<and>
         length (select_questions min_faqs questions) \<le> max 5 (min_faqs + 2) \<and>
         (min_faqs \<le> length (select_questions min_faqs questions) \<or>
          select_questions min_faqs questions =
            map (\<lambda>c. \<lparr>question = hd (get_or (questions c) []), category = c\<rparr>)
                category_priority
            @ concat (map (\<lambda>c. map (\<lambda>q. \<lparr>question = q, category = c\<rparr>)
                                  (drop 1 (get_or (questions c) []))) category_priority))"
proof -
  let ?firsts = "map (\<lambda>c. \<lparr>question = hd (get_or (questions c) []), category = c\<rparr>)
                     category_priority"
  have f: "first_pass questions category_priority = ?firsts"
    using assms by (rule first_pass_populated)
  have l: "length ?firsts = 5"
    by (simp add: category_priority_def)
  have s: "select_questions min_faqs questions =
             ?firsts @ backfill min_faqs questions category_priority 5"
    unfolding select_questions_def second_pass_backfill f l ..
  have n: "length (select_questions min_faqs questions) =
             5 + length (backfill min_faqs questions category_priority 5)"
    unfolding s by (simp only: length_append l)
  have b: "length (select_questions min_faqs questions) \<le> max 5 (min_faqs + 2)"
    unfolding n by (rule backfill_length)
  have e: "min_faqs \<le> length (select_questions min_faqs questions) \<or>
           select_questions min_faqs questions =
             ?firsts @ concat (map (\<lambda>c. map (\<lambda>q. \<lparr>question = q, category = c\<rparr>)
                                  (drop 1 (get_or (questions c) []))) category_priority)"
    using backfill_enough_or_all [of min_faqs 5 questions category_priority]
    unfolding s length_append l by (simp only: same_append_eq)
  show ?thesis
    using s b e by (intro conjI)
qed

theorem selection_covers_categories_witness:
  "select_questions 10 three_each =
     [\<lparr>question = lit ''i1'', category = lit ''informational''\<rparr>,
      \<lparr>question = lit ''u1'', category = lit ''usage''\<rparr>,
      \<lparr>question = lit ''s1'', category = lit ''safety''\<rparr>,
      \<lparr>question = lit ''p1'', category = lit ''purchase''\<rparr>,
      \<lparr>question = lit ''c1'', category = lit ''comparison''\<rparr>,
      \<lparr>question = lit ''i2'', category = lit ''informational''\<rparr>,
      \<lparr>question = lit ''i3'', category = lit ''informational''\<rparr>,
      \<lparr>question = lit ''u2'', category = lit ''usage''\<rparr>,
      \<lparr>question = lit ''u3'', category = lit ''usage''\<rparr>,
      \<lparr>question = lit ''s2'', category = lit ''safety''\<rparr>,
      \<lparr>question = lit ''s3'', category = lit ''safety''\<rparr>] \<and>
   select_questions 6 five_informational =
     [\<lparr>question = lit ''i1'', category = lit ''informational''\<rparr>,
      \<lparr>question = lit ''u1'', category = lit ''usage''\<rparr>,
      \<lparr>question = lit ''s1'', category = lit ''safety''\<rparr>,
      \<lparr>question = lit ''p1'', category = lit ''purchase''\<rparr>,
      \<lparr>question = lit ''c1'', category = lit ''comparison''\<rparr>,
      \<lparr>question = lit ''i2'', category = lit ''informational''\<rparr>,
      \<lparr>question = lit ''i3'', category = lit ''informational''\<rparr>,
      \<lparr>question = lit ''i4'', category = lit ''informational''\<rparr>] \<and>
   select_questions MIN_FAQ_ITEMS sample_questions =
     [\<lparr>question = lit ''What is GlowBoost Vitamin C Serum?'', category = lit ''informational''\<rparr>,
      \<lparr>question = lit ''How do I apply the serum?'', category = lit ''usage''\<rparr>,
      \<lparr>question = lit ''Are there any side effects?'', category = lit ''safety''\<rparr>,
      \<lparr>question = lit ''How much does it cost?'', category = lit ''purchase''\<rparr>,
      \<lparr>question = lit ''How does it compare to other serums?'', category = lit ''comparison''\<rparr>]"
proof -
  have h: "(\<forall>c\<in>set category_priority. \<exists>q qs. three_each c = Some (q # qs)) \<and>
           (\<forall>c\<in>set category_priority. \<exists>q qs. five_informational c = Some (q # qs)) \<and>
           (\<forall>c\<in>set category_priority. \<exists>q qs. sample_questions c = Some (q # qs))"
    by (simp add: category_priority_def three_each_def five_informational_def
          sample_questions_def lit_def)
  have a: "map (\<lambda>c. \<lparr>question = hd (get_or (three_each c) []), category = c\<rparr>)
               category_priority @ backfill 10 three_each category_priority 5 =
     [\<lparr>question = lit ''i1'', category = lit ''informational''\<rparr>,
      \<lparr>question = lit ''u1'', category = lit ''usage''\<rparr>,
      \<lparr>question = lit ''s1'', category = lit ''safety''\<rparr>,
      \<lparr>question = lit ''p1'', category = lit ''purchase''\<rparr>,
      \<lparr>question = lit ''c1'', category = lit ''comparison''\<rparr>,
      \<lparr>question = lit ''i2'', category = lit ''informational''\<rparr>,
      \<lparr>question = lit ''i3'', category = lit ''informational''\<rparr>,
      \<lparr>question = lit ''u2'', category = lit ''usage''\<rparr>,
      \<lparr>question = lit ''u3'', category = lit ''usage''\<rparr>,
      \<lparr>question = lit ''s2'', category = lit ''safety''\<rparr>,
      \<lparr>question = lit ''s3'', category = lit ''safety''\<rparr>]"
    by (simp add: backfill_def later_counts_def later_questions_def three_each_def
          category_priority_def get_or_def lit_def)
  have b: "map (\<lambda>c. \<lparr>question = hd (get_or (five_informational c) []), category = c\<rparr>)
               category_priority @ backfill 6 five_informational category_priority 5 =
     [\<lparr>question = lit ''i1'', category = lit ''informational''\<rparr>,
      \<lparr>question = lit ''u1'', category = lit ''usage''\<rparr>,
      \<lparr>question = lit ''s1'', category = lit ''safety''\<rparr>,
      \<lparr>question = lit ''p1'', category = lit ''purchase''\<rparr>,
      \<lparr>question = lit ''c1'', category = lit ''comparison''\<rparr>,
      \<lparr>question = lit ''i2'', category = lit ''informational''\<rparr>,
      \<lparr>question = lit ''i3'', category = lit ''informational''\<rparr>,
      \<lparr>question = lit ''i4'', category = lit ''informational''\<rparr>]"
    by (simp add: backfill_def later_counts_def later_questions_def five_informational_def
          category_priority_def get_or_def lit_def)
  have c: "map (\<lambda>c. \<lparr>question = hd (get_or (sample_questions c) []), category = c\<rparr>)
               category_priority @ backfill MIN_FAQ_ITEMS sample_questions category_priority 5 =
     [\<lparr>question = lit ''What is GlowBoost Vitamin C Serum?'', category = lit ''informational''\<rparr>,
      \<lparr>question = lit ''How do I apply the serum?'', category = lit ''usage''\<rparr>,
      \<lparr>question = lit ''Are there any side effects?'', category = lit ''safety''\<rparr>,
      \<lparr>question = lit ''How much does it cost?'', category = lit ''purchase''\<rparr>,
      \<lparr>question = lit ''How does it compare to other serums?'', category = lit ''comparison''\<rparr>]"
    by (simp add: backfill_def later_counts_def later_questions_def sample_questions_def
          category_priority_def get_or_def lit_def MIN_FAQ_ITEMS_def)
  have w1: "select_questions 10 three_each =
              map (\<lambda>c. \<lparr>question = hd (get_or (three_each c) []), category = c\<rparr>)
                  category_priority @ backfill 10 three_each category_priority 5"
    using selection_covers_categories [of three_each 10] h by blast
  have w2: "select_questions 6 five_informational =
              map (\<lambda>c. \<lparr>question = hd (get_or (five_informational c) []), category = c\<rparr>)
                  category_priority @ backfill 6 five_informational category_priority 5"
    using selection_covers_categories [of five_informational 6] h by blast
  have w3: "select_questions MIN_FAQ_ITEMS sample_questions =
              map (\<lambda>c. \<lparr>question = hd (get_or (sample_questions c) []), category = c\<rparr>)
                  category_priority @ backfill MIN_FAQ_ITEMS sample_questions category_priority 5"
    using selection_covers_categories [of sample_questions MIN_FAQ_ITEMS] h by blast
  show ?thesis
    unfolding w1 w2 w3 a b c by simp
qed

section \<open>Properties of response parsing\<close>























section \<open>Properties of the orchestrator\<close>

lemmas stage_defs =
  stage_parse_product_def stage_generate_questions_def stage_prepare_content_blocks_def
  stage_load_templates_def stage_generate_faq_def stage_generate_product_page_def
  stage_generate_comparison_def execute_stage_def print_stage_def print_success_def

lemmas env_defs =
  working_env_def failing_questions_def failing_faq_def failing_product_page_def
  failing_comparison_def quota_error_def

lemmas run_defs =
  run_def stages_def stage_defs print_header_def print_error_def initial_run_state_def
  and_then_def json_get_def json_len_def Let_def

lemma keeps_files_stages: "list_all keeps_files (stages verbose env input_path)"
  by (simp add: stages_def keeps_files_def stage_defs Let_def split: sum.splits)

lemma run_stages_keeps_files:
  "list_all keeps_files ss \<Longrightarrow> keeps_files (run_stages ss)"
proof (induction ss)
  case Nil
  then show ?case by (simp add: keeps_files_def)
next
  case (Cons s ss)
  then have s: "keeps_files s" and ss: "keeps_files (run_stages ss)" by simp_all
  show ?case
    unfolding keeps_files_def
  proof
    fix w
    obtain r w' where sw: "s w = (r, w')" by (cases "s w")
    have 1: "written w' = written w \<and>
             filter is_error_line (console w') = filter is_error_line (console w)"
      using s sw by (auto simp: keeps_files_def dest: spec [of _ w])
    have 2: "written (snd (run_stages ss w')) = written w' \<and>
             filter is_error_line (console (snd (run_stages ss w'))) =
             filter is_error_line (console w')"
      using ss by (simp add: keeps_files_def)
    show "written (snd (run_stages (s # ss) w)) = written w \<and>
          filter is_error_line (console (snd (run_stages (s # ss) w))) =
          filter is_error_line (console w)"
      using sw 1 2 by (cases r) simp_all
  qed
qed

text \<open>
  C5, amended: every error that a stage of a run raises is handled once at the top of the
  orchestrator (one error line is printed) and surfaced to the caller in the run result,
  which is the failure carrying the message of the error and nothing else: no stage name
  is attached; and on any such failure no output file is written.
\<close>

theorem stage_errors_surface:
  assumes "fst (run_stages (stages verbose env input_path)
                  (print_header verbose initial_run_state)) = Some e"
  shows "fst (run verbose env input_path) = Failure (message e) \<and>
         written (snd (run verbose env input_path)) = [] \<and>
         filter is_error_line (console (snd (run verbose env input_path))) =
           [Error_line (message e)]"
proof -
  let ?w0 = "print_header verbose initial_run_state"
  obtain w where r: "run_stages (stages verbose env input_path) ?w0 = (Some e, w)"
    using assms by (cases "run_stages (stages verbose env input_path) ?w0") simp
  have k: "keeps_files (run_stages (stages verbose env input_path))"
    using keeps_files_stages by (rule run_stages_keeps_files)
  have "written w = written ?w0 \<and>
        filter is_error_line (console w) = filter is_error_line (console ?w0)"
    using k r by (auto simp: keeps_files_def dest: spec [of _ ?w0])
  then have "written w = [] \<and> filter is_error_line (console w) = []"
    by (simp add: print_header_def initial_run_state_def)
  then show ?thesis
    using r by (simp add: run_def print_error_def)
qed

text \<open>
  C4, amended: in any run where stage 2 raises an error (the question generator raises,
  or the count of its questions does), stages 3 to 7 are not executed, no output document
  is written, and the run result is the failure carrying the message of that error. The
  result names no stage; when progress output is on, the last stage header printed before
  the error line is that of stage 2, and when it is off the error line is all that is
  printed.
\<close>

theorem question_stage_failure:
  assumes "parser_parse env input_path = Inr p"
      and "question_generate env (Some p) = Inl e \<or>
           (\<exists>qs. question_generate env (Some p) = Inr qs \<and> get_total_count qs = Inl e)"
  shows "fst (run verbose env input_path) = Failure (message e) \<and>
         executed (snd (run verbose env input_path)) = [1, 2] \<and>
         written (snd (run verbose env input_path)) = [] \<and>
         console (snd (run verbose env input_path)) =
           (if verbose
            then [Header_line,
                  Stage_line 1 (lit ''ProductParserAgent'') (lit ''Parsing product data...''),
                  Success_line (Product_parsed (get_or (p_name p) (lit ''Unknown''))),
                  Stage_line 2 (lit ''QuestionGeneratorAgent'')
                    (lit ''Generating categorized questions...'')]
            else []) @ [Error_line (message e)]"
  using assms
  by (auto simp: run_def stages_def stage_defs print_header_def print_error_def
        initial_run_state_def Let_def)

theorem question_stage_failure_witness:
  "parser_parse failing_questions input_json = Inr safety_sample \<and>
   question_generate failing_questions (Some safety_sample) = Inl quota_error \<and>
   fst (run True failing_questions input_json) = Failure (message quota_error) \<and>
   executed (snd (run True failing_questions input_json)) = [1, 2] \<and>
   written (snd (run True failing_questions input_json)) = [] \<and>
   last (butlast (console (snd (run True failing_questions input_json)))) =
     Stage_line 2 (lit ''QuestionGeneratorAgent'') (lit ''Generating categorized questions...'')"
proof -
  have a: "parser_parse failing_questions input_json = Inr safety_sample"
    by (simp add: env_defs)
  have b: "question_generate failing_questions (Some safety_sample) = Inl quota_error"
    by (simp add: env_defs)
  show ?thesis
    using question_stage_failure [OF a disjI1 [OF b], of True] a b by simp
qed

text \<open>
  C4, as stated, fails in its last part: a quiet run in which stage 2 raises and a quiet
  run in which stage 5 raises the same error return the same result and print the same
  text, so what the orchestrator reports does not identify stage 2.
\<close>

theorem stage_not_reported_counterexample:
  "fst (run False failing_questions input_json) = fst (run False failing_faq input_json) \<and>
   console (snd (run False failing_questions input_json)) =
     console (snd (run False failing_faq input_json)) \<and>
   executed (snd (run False failing_questions input_json)) = [1, 2] \<and>
   executed (snd (run False failing_faq input_json)) = [1, 2, 3, 4, 5]"
  by (simp add: run_defs env_defs)

text \<open>
  C5, as stated, fails in one part: the run result of a failure in stage 6 and of a
  failure in stage 7 is the same bare message, with no stage name in it.
\<close>

theorem result_without_stage_counterexample:
  "fst (run True failing_product_page input_json) =
     Failure (lit ''LLM call failed: quota exceeded'') \<and>
   fst (run True failing_comparison input_json) =
     Failure (lit ''LLM call failed: quota exceeded'') \<and>
   executed (snd (run True failing_product_page input_json)) = [1, 2, 3, 4, 5, 6] \<and>
   executed (snd (run True failing_comparison input_json)) = [1, 2, 3, 4, 5, 6, 7]"
  by (simp add: run_defs env_defs)

theorem stage_errors_surface_witness:
  "fst (run_stages (stages False failing_comparison input_json)
          (print_header False initial_run_state)) = Some quota_error \<and>
   fst (run False failing_comparison input_json) = Failure (message quota_error) \<and>
   written (snd (run False failing_comparison input_json)) = [] \<and>
   filter is_error_line (console (snd (run False failing_comparison input_json))) =
     [Error_line (message quota_error)]"
proof -
  have a: "fst (run_stages (stages False failing_comparison input_json)
                 (print_header False initial_run_state)) = Some quota_error"
    by (simp add: run_defs env_defs)
  show ?thesis
    using stage_errors_surface [OF a] a by simp
qed

end
